theory Spec2Isabelle
  imports Main "HOL-Library.Char_ord" "HOL-Library.List_Lexorder"
begin

section \<open>Python strings\<close>

text \<open>
  The completer of \<^verbatim>\<open>IPython/core/completer.py\<close> works on Python 2 byte strings; they are
  modelled as \<^typ>\<open>string\<close>. The helpers below are the \<^verbatim>\<open>str\<close> methods and the regular
  expression character classes the module uses.
\<close>

definition whitespace_chars :: string where
  "whitespace_chars = [CHR '' '', CHR 0x09, CHR 0x0A, CHR 0x0B, CHR 0x0C, CHR 0x0D]"

definition isspace :: "char \<Rightarrow> bool" where
  "isspace c = (c \<in> set whitespace_chars)"

definition word_chars :: string where
  "word_chars = ''abcdefghijklmnopqrstuvwxyzABCDEFGHIJKLMNOPQRSTUVWXYZ0123456789_''"

text \<open>The class \<^verbatim>\<open>\w\<close> of the \<^verbatim>\<open>re\<close> module (no locale, no unicode flag).\<close>

definition is_word :: "char \<Rightarrow> bool" where
  "is_word c = (c \<in> set word_chars)"

text \<open>\<^verbatim>\<open>s.startswith(p)\<close>.\<close>

definition startswith :: "string \<Rightarrow> string \<Rightarrow> bool" where
  "startswith s p = (take (length p) s = p)"

text \<open>\<^verbatim>\<open>s.endswith(p)\<close>.\<close>

definition endswith :: "string \<Rightarrow> string \<Rightarrow> bool" where
  "endswith s p = (length p \<le> length s \<and> drop (length s - length p) s = p)"

text \<open>\<^verbatim>\<open>s.lstrip()\<close>, \<^verbatim>\<open>s.strip()\<close> and \<^verbatim>\<open>s.lstrip(chars)\<close>.\<close>

definition lstrip :: "string \<Rightarrow> string" where
  "lstrip s = dropWhile isspace s"

definition strip :: "string \<Rightarrow> string" where
  "strip s = rev (dropWhile isspace (rev (dropWhile isspace s)))"

definition lstrip_chars :: "string \<Rightarrow> string \<Rightarrow> string" where
  "lstrip_chars s chars = dropWhile (\<lambda>c. c \<in> set chars) s"

text \<open>\<^verbatim>\<open>s.split(None, 1)[0]\<close> on a string that is not blank: its first word.\<close>

definition first_word :: "string \<Rightarrow> string" where
  "first_word s = takeWhile (\<lambda>c. \<not> isspace c) (dropWhile isspace s)"

text \<open>\<^verbatim>\<open>s.split(sep)[-1]\<close> for a one-character separator: what follows its last occurrence.\<close>

definition after_last :: "char \<Rightarrow> string \<Rightarrow> string" where
  "after_last sep s = rev (takeWhile (\<lambda>c. c \<noteq> sep) (rev s))"

text \<open>\<^verbatim>\<open>s.lower()\<close> in the C locale.\<close>

definition lower_char :: "char \<Rightarrow> char" where
  "lower_char c =
     (case map_of (zip ''ABCDEFGHIJKLMNOPQRSTUVWXYZ'' ''abcdefghijklmnopqrstuvwxyz'') c of
        Some l \<Rightarrow> l
      | None \<Rightarrow> c)"

definition lower :: "string \<Rightarrow> string" where
  "lower s = map lower_char s"

text \<open>\<^verbatim>\<open>s[:n]\<close> for a Python integer \<open>n\<close>: a negative \<open>n\<close> counts from the end.\<close>

definition slice_to :: "string \<Rightarrow> int \<Rightarrow> string" where
  "slice_to s n = (if n < 0 then take (nat (int (length s) + n)) s else take (nat n) s)"

text \<open>
  \<^verbatim>\<open>xs[i]\<close> inside \<^verbatim>\<open>try: ... except IndexError: return None\<close>: negative indices count from
  the end, and an index out of range gives \<open>None\<close>.
\<close>

definition index_or_none :: "'a list \<Rightarrow> int \<Rightarrow> 'a option" where
  "index_or_none xs i =
     (let n = int (length xs); j = (if i < 0 then n + i else i)
      in if 0 \<le> j \<and> j < n then Some (xs ! nat j) else None)"

text \<open>\<^verbatim>\<open>sorted(set(xs))\<close> on strings: byte-wise lexicographic order, duplicates removed.\<close>

definition sorted_set :: "string list \<Rightarrow> string list" where
  "sorted_set xs = sort (remdups xs)"

section \<open>The world outside the module\<close>

datatype py_error = TypeError | AttributeError | CompleterError

text \<open>
  What the module reaches through \<^verbatim>\<open>os\<close>, \<^verbatim>\<open>glob\<close>, \<^verbatim>\<open>shlex\<close>, \<^verbatim>\<open>keyword\<close>,
  \<^verbatim>\<open>__builtin__\<close>, \<^verbatim>\<open>inspect\<close>, \<^verbatim>\<open>eval\<close>, \<^verbatim>\<open>IPython.utils\<close> and the shell object is a
  parameter of the model. \<open>'v\<close> is the type of Python values. A call that the source guards
  with \<^verbatim>\<open>try\<close> returns an option: \<open>None\<close> is the exception the source catches
  (\<^verbatim>\<open>ValueError\<close> for \<^verbatim>\<open>shlex.split\<close>, any exception for \<^verbatim>\<open>eval\<close>, \<^verbatim>\<open>TryNext\<close> for
  \<^verbatim>\<open>generics.complete_object\<close>, \<^verbatim>\<open>TypeError\<close> for \<^verbatim>\<open>inspect.getargspec\<close>).
\<close>

record 'v env =
  win32 :: bool
  glob :: "string \<Rightarrow> string list"
  isdir :: "string \<Rightarrow> bool"
  home_expand :: "string \<Rightarrow> string"
  shlex_split :: "string \<Rightarrow> string list option"
  kwlist :: "string list"
  builtin_names :: "string list"
  eval :: "string \<Rightarrow> (string \<times> 'v) list \<Rightarrow> 'v option"
  dir2 :: "'v \<Rightarrow> string list"
  complete_object :: "'v \<Rightarrow> string list \<Rightarrow> string list option"
  isfunction :: "'v \<Rightarrow> bool"
  ismethod :: "'v \<Rightarrow> bool"
  isclass :: "'v \<Rightarrow> bool"
  getattr_init :: "'v \<Rightarrow> 'v option"
  getattr_new :: "'v \<Rightarrow> 'v option"
  getattr_call :: "'v \<Rightarrow> 'v option"
  getargspec :: "'v \<Rightarrow> (string list \<times> nat) option"
  lsmagic :: "string list"

text \<open>
  \<^verbatim>\<open>os.path.expanduser\<close> returns a path that does not start with \<^verbatim>\<open>~\<close> as it is; what it
  does with the others depends on the user database.
\<close>

definition expanduser :: "'v env \<Rightarrow> string \<Rightarrow> string" where
  "expanduser e path = (if startswith path ''~'' then home_expand e path else path)"

section \<open>Module-level functions\<close>

definition PROTECTABLES :: "'v env \<Rightarrow> string" where
  "PROTECTABLES e = (if win32 e then '' '' else '' ()'')"

definition protect_filename :: "'v env \<Rightarrow> string \<Rightarrow> string" where
  "protect_filename e s =
     concat (map (\<lambda>ch. if ch \<in> set (PROTECTABLES e) then [CHR 0x5C, ch] else [ch]) s)"

text \<open>The loop of \<^verbatim>\<open>mark_dirs\<close>, with its accumulator \<^verbatim>\<open>out\<close>.\<close>

fun mark_dirs_loop :: "(string \<Rightarrow> bool) \<Rightarrow> string list \<Rightarrow> string list \<Rightarrow> string list" where
  "mark_dirs_loop isd [] out = out"
| "mark_dirs_loop isd (x # xs) out =
     (if isd x then mark_dirs_loop isd xs (out @ [x @ ''/''])
      else mark_dirs_loop isd xs (out @ [x]))"

definition mark_dirs :: "'v env \<Rightarrow> string list \<Rightarrow> string list" where
  "mark_dirs e matches = mark_dirs_loop (isdir e) matches []"

section \<open>CompletionSplitter\<close>

text \<open>
  The \<^verbatim>\<open>_delims\<close> of the class. \<^verbatim>\<open>IPCompleter.__init__\<close> makes its splitter with
  \<^verbatim>\<open>CompletionSplitter()\<close>, so these are the delimiters of every completer.
  \<^verbatim>\<open>set_delims\<close> compiles the character class \<^verbatim>\<open>[\c1\c2...]\<close>. None of these delimiters is
  a letter or a digit, so each escaped character stands for itself and the class is the set
  of the delimiters. A splitter with other delimiters is not modelled: an escaped letter or
  digit would be read as a class, as a control character, or not compile.
\<close>

definition default_delims :: string where
  "default_delims =
     [CHR '' '', CHR 0x09, CHR 0x0A] @ ''`!@#$^&*()=+[{]}'' @ [CHR 0x5C] @ ''|;:'' @
     [CHR 0x27, CHR 0x22] @ '',<>?''"

text \<open>
  \<^verbatim>\<open>split_line\<close> of that splitter: the last piece of \<^verbatim>\<open>re.split\<close> on the delimiter class
  is what follows the last delimiter. A line that is \<^verbatim>\<open>None\<close> raises \<^verbatim>\<open>TypeError\<close>.
\<close>

definition split_line :: "string option \<Rightarrow> int option \<Rightarrow> py_error + string" where
  "split_line line cursor_pos =
     (case line of
        None \<Rightarrow> Inl TypeError
      | Some ln \<Rightarrow>
          (let l = (case cursor_pos of None \<Rightarrow> ln | Some c \<Rightarrow> slice_to ln c)
           in Inr (rev (takeWhile (\<lambda>c. c \<notin> set default_delims) (rev l)))))"

section \<open>Custom completers\<close>

text \<open>
  The \<^verbatim>\<open>Bunch\<close> passed to a custom completer, and what the call does: it returns a list,
  raises \<^verbatim>\<open>TryNext\<close>, or raises something else.
\<close>

record event =
  line :: string
  symbol :: string
  command :: string

datatype cb_result = Matched "string list" | TryNext | Raised

type_synonym callback = "event \<Rightarrow> cb_result"

text \<open>
  Modelled from the spec: the registry object \<^verbatim>\<open>custom_completers\<close> (a \<^verbatim>\<open>StrDispatch\<close> of
  \<^verbatim>\<open>IPython.utils.strdispatch\<close>) is not in this module. The spec has it as a table of
  (pattern, callback) pairs, where a pattern matches either an exact command name or, as a
  flat pattern, anywhere against the raw buffer. A flat pattern is kept as its test on the
  buffer. \<^verbatim>\<open>s_matches\<close> gives the callbacks registered for exactly the key,
  \<^verbatim>\<open>flat_matches\<close> those whose flat pattern matches the buffer, in registration order.
\<close>

datatype pattern = Exact string | Flat "string \<Rightarrow> bool"

type_synonym registry = "(pattern \<times> callback) list"

fun s_matches :: "registry \<Rightarrow> string \<Rightarrow> callback list" where
  "s_matches [] key = []"
| "s_matches ((Exact k, cb) # reg) key =
     (if k = key then cb # s_matches reg key else s_matches reg key)"
| "s_matches ((Flat p, cb) # reg) key = s_matches reg key"

fun flat_matches :: "registry \<Rightarrow> string \<Rightarrow> callback list" where
  "flat_matches [] buf = []"
| "flat_matches ((Exact k, cb) # reg) buf = flat_matches reg buf"
| "flat_matches ((Flat p, cb) # reg) buf =
     (if p buf then cb # flat_matches reg buf else flat_matches reg buf)"

section \<open>The completer object\<close>

text \<open>The five methods that \<^verbatim>\<open>IPCompleter.__init__\<close> puts into \<^verbatim>\<open>self.matchers\<close>.\<close>

datatype matcher =
  python_matches_m | file_matches_m | magic_matches_m | alias_matches_m
| python_func_kw_matches_m

definition default_matchers :: "matcher list" where
  "default_matchers =
     [python_matches_m, file_matches_m, magic_matches_m, alias_matches_m,
      python_func_kw_matches_m]"

text \<open>
  The attributes of an \<^verbatim>\<open>IPCompleter\<close>. \<open>readline\<close> is \<open>None\<close> when the object was made
  with \<^verbatim>\<open>use_readline=False\<close> (then \<^verbatim>\<open>self.get_line_buffer\<close> does not exist), otherwise
  the line buffer and the end index that readline reports. \<open>alias_table\<close> holds the keys
  of the alias dictionary, the namespaces are dictionaries in their key order.

  The record is a completer as the shell sets it up: made with a namespace, with
  \<^verbatim>\<open>custom_completers\<close> assigned, which this module leaves to the shell. A completer made
  without a namespace has no attribute \<^verbatim>\<open>namespace\<close> (only \<^verbatim>\<open>Completer.complete\<close>, which
  \<^verbatim>\<open>IPCompleter\<close> overrides, binds it to \<^verbatim>\<open>__main__\<close>), and is not modelled.
\<close>

record 'v completer =
  namespace :: "(string \<times> 'v) list"
  global_namespace :: "(string \<times> 'v) list"
  magic_escape :: string
  readline :: "(string \<times> int) option"
  matches :: "string list"
  omit__names :: nat
  merge_completions :: bool
  alias_table :: "string list"
  dumb_terminal :: bool
  matchers :: "matcher list"
  custom_completers :: registry
  full_lbuf :: string
  lbuf :: string

section \<open>Completer: names and attributes\<close>

text \<open>The inner loop of \<^verbatim>\<open>global_matches\<close> over one list of words.\<close>

definition global_matches_in :: "string \<Rightarrow> string list \<Rightarrow> string list" where
  "global_matches_in text lst =
     filter (\<lambda>word. take (length text) word = text \<and> word \<noteq> ''__builtins__'') lst"

definition global_matches :: "'v env \<Rightarrow> 'v completer \<Rightarrow> string \<Rightarrow> string list" where
  "global_matches e self text =
     concat (map (global_matches_in text)
       [kwlist e, builtin_names e, map fst (namespace self), map fst (global_namespace self)])"

text \<open>
  \<^verbatim>\<open>re.match(r"(\S+(\.\w+)*)\.(\w*)$", text)\<close> and its groups 1 and 3. \<^verbatim>\<open>$\<close> matches at
  the end of the text or before a newline that ends it. Group 3 has no dot, so the dot
  before it is the last dot of the text; group 1 is all that comes before that dot, which
  \<^verbatim>\<open>\S+\<close> alone can match when it is not empty and has no whitespace.
\<close>

definition attr_re_match :: "string \<Rightarrow> (string \<times> string) option" where
  "attr_re_match text =
     (let t = (if text \<noteq> [] \<and> last text = CHR 0x0A then butlast text else text);
          attr = after_last CHR ''.'' t;
          expr = take (length t - length attr - 1) t
      in if CHR ''.'' \<in> set t \<and> expr \<noteq> [] \<and> list_all (\<lambda>c. \<not> isspace c) expr
            \<and> list_all is_word attr
         then Some (expr, attr) else None)"

definition attr_matches :: "'v env \<Rightarrow> 'v completer \<Rightarrow> string \<Rightarrow> string list" where
  "attr_matches e self text =
     (case attr_re_match text of
        None \<Rightarrow> []
      | Some (expr, attr) \<Rightarrow>
          (case (case eval e expr (namespace self) of
                   Some obj \<Rightarrow> Some obj
                 | None \<Rightarrow> eval e expr (global_namespace self)) of
             None \<Rightarrow> []
           | Some obj \<Rightarrow>
               (let words0 = dir2 e obj;
                    words = (case complete_object e obj words0 of
                               Some ws \<Rightarrow> ws
                             | None \<Rightarrow> words0)
                in map (\<lambda>w. expr @ ''.'' @ w)
                     (filter (\<lambda>w. take (length attr) w = attr) words))))"

section \<open>IPCompleter: the matchers\<close>

text \<open>\<^verbatim>\<open>_clean_glob\<close> or \<^verbatim>\<open>_clean_glob_win32\<close>, as \<^verbatim>\<open>__init__\<close> chooses by platform.\<close>

definition clean_glob :: "'v env \<Rightarrow> string \<Rightarrow> string list" where
  "clean_glob e text =
     (if win32 e
      then map (map (\<lambda>c. if c = CHR 0x5C then CHR ''/'' else c)) (glob e (text @ ''*''))
      else glob e (text @ ''*''))"

text \<open>
  The \<^verbatim>\<open>try\<close> block of \<^verbatim>\<open>file_matches\<close> that finds \<^verbatim>\<open>lsplit\<close> and \<^verbatim>\<open>open_quotes\<close>;
  \<open>None\<close> is its \<^verbatim>\<open>return []\<close>.
\<close>

definition find_lsplit :: "'v env \<Rightarrow> string \<Rightarrow> (bool \<times> string) option" where
  "find_lsplit e lb =
     (case shlex_split e lb of
        Some [] \<Rightarrow> Some (False, '''')
      | Some (t # ts) \<Rightarrow> Some (False, last (t # ts))
      | None \<Rightarrow>
          (if count_list lb (CHR 0x22) = 1 then Some (True, after_last (CHR 0x22) lb)
           else if count_list lb (CHR 0x27) = 1 then Some (True, after_last (CHR 0x27) lb)
           else None))"

definition file_matches :: "'v env \<Rightarrow> 'v completer \<Rightarrow> string \<Rightarrow> string list" where
  "file_matches e self text_in =
     (let text1 = (if startswith text_in ''!'' then drop 1 text_in else text_in);
          text_prefix = (if startswith text_in ''!'' then ''!'' else '''')
      in case find_lsplit e (lbuf self) of
           None \<Rightarrow> []
         | Some (open_quotes, lsplit) \<Rightarrow>
             (let has_protectables = (lsplit \<noteq> protect_filename e lsplit);
                  text0 = text1;
                  text = (if has_protectables then lsplit else expanduser e text1)
              in if text = '''' then
                   map (\<lambda>f. text_prefix @ protect_filename e f) (glob e ''*'')
                 else
                   (let m0 = clean_glob e (filter (\<lambda>c. c \<noteq> CHR 0x5C) text)
                    in if has_protectables then
                         mark_dirs e
                           (map (\<lambda>f. text_prefix @ text0 @
                                   protect_filename e (drop (length lsplit) f)) m0)
                       else if open_quotes then mark_dirs e m0
                       else mark_dirs e (map (\<lambda>f. text_prefix @ protect_filename e f) m0))))"

definition magic_matches :: "'v env \<Rightarrow> 'v completer \<Rightarrow> string \<Rightarrow> string list" where
  "magic_matches e self text =
     (let magics = lsmagic e;
          pre = magic_escape self;
          baretext = lstrip_chars text pre
      in map (\<lambda>m. pre @ m) (filter (\<lambda>m. startswith m baretext) magics))"

definition alias_matches :: "'v env \<Rightarrow> 'v completer \<Rightarrow> string \<Rightarrow> string list" where
  "alias_matches e self text_in =
     (if CHR '' '' \<in> set (lstrip (lbuf self)) \<and> \<not> startswith (lstrip (lbuf self)) ''sudo''
      then []
      else (let text = expanduser e text_in; aliases = alias_table self
            in if text = '''' then aliases
               else filter (\<lambda>alias. startswith alias text) aliases))"

text \<open>
  The two filters of \<^verbatim>\<open>python_matches\<close>. Both patterns are matched from the start of the
  text with \<^verbatim>\<open>.\<close> not matching a newline, so they look at the first line only:
  \<^verbatim>\<open>.*\.__.*?__\<close> wants \<^verbatim>\<open>.__\<close> and, after it, \<^verbatim>\<open>__\<close>; \<^verbatim>\<open>.*\._.*?\<close> wants \<^verbatim>\<open>._\<close>.
\<close>

fun has_infix :: "string \<Rightarrow> string \<Rightarrow> bool" where
  "has_infix [] p = (p = [])"
| "has_infix (c # cs) p = (startswith (c # cs) p \<or> has_infix cs p)"

fun dunder_re_match :: "string \<Rightarrow> bool" where
  "dunder_re_match [] = False"
| "dunder_re_match (c # cs) =
     (c \<noteq> CHR 0x0A \<and>
      ((startswith (c # cs) ''.__'' \<and>
        has_infix (takeWhile (\<lambda>x. x \<noteq> CHR 0x0A) (drop 2 cs)) ''__'')
        \<or> dunder_re_match cs))"

definition underscore_re_match :: "string \<Rightarrow> bool" where
  "underscore_re_match txt = has_infix (takeWhile (\<lambda>x. x \<noteq> CHR 0x0A) txt) ''._''"

definition python_matches :: "'v env \<Rightarrow> 'v completer \<Rightarrow> string \<Rightarrow> string list" where
  "python_matches e self text =
     (if CHR ''.'' \<in> set text then
        (let ms = attr_matches e self text
         in if endswith text ''.'' \<and> omit__names self \<noteq> 0 then
              (if omit__names self = 1 then filter (\<lambda>txt. \<not> dunder_re_match txt) ms
               else filter (\<lambda>txt. \<not> underscore_re_match txt) ms)
            else ms)
      else global_matches e self text)"

text \<open>
  \<^verbatim>\<open>_default_arguments\<close>. \<open>getargspec\<close> gives the argument names and the number of
  defaults (\<open>0\<close> for no defaults); a class with neither \<^verbatim>\<open>__init__\<close> nor \<^verbatim>\<open>__new__\<close>
  leaves \<^verbatim>\<open>None\<close>, on which \<^verbatim>\<open>inspect.getargspec\<close> raises the \<^verbatim>\<open>TypeError\<close> that is caught.
\<close>

definition default_arguments :: "'v env \<Rightarrow> 'v \<Rightarrow> string list" where
  "default_arguments e obj =
     (let obj' =
        (if \<not> (isfunction e obj \<or> ismethod e obj) then
           (if isclass e obj then
              (case getattr_init e obj of Some i \<Rightarrow> Some i | None \<Rightarrow> getattr_new e obj)
            else (case getattr_call e obj of Some c \<Rightarrow> Some c | None \<Rightarrow> Some obj))
         else Some obj)
      in case obj' of
           None \<Rightarrow> []
         | Some f \<Rightarrow>
             (case getargspec e f of
                None \<Rightarrow> []
              | Some (args, ndefaults) \<Rightarrow>
                  if ndefaults \<noteq> 0 then drop (length args - ndefaults) args else []))"

text \<open>
  \<^verbatim>\<open>regexp.findall\<close> for the pattern of \<^verbatim>\<open>python_func_kw_matches\<close>, compiled with
  \<^verbatim>\<open>re.VERBOSE | re.DOTALL\<close>: at each position the alternatives are tried in order, a
  quoted string up to the next quote of its kind, a run of word characters, one character
  that is not whitespace; whitespace is skipped.
\<close>

function func_params_findall :: "string \<Rightarrow> string list" where
  "func_params_findall [] = []"
| "func_params_findall (c # cs) =
     (if c = CHR 0x27 \<and> CHR 0x27 \<in> set cs then
        (c # takeWhile (\<lambda>x. x \<noteq> CHR 0x27) cs @ [CHR 0x27]) #
          func_params_findall (drop 1 (dropWhile (\<lambda>x. x \<noteq> CHR 0x27) cs))
      else if c = CHR 0x22 \<and> CHR 0x22 \<in> set cs then
        (c # takeWhile (\<lambda>x. x \<noteq> CHR 0x22) cs @ [CHR 0x22]) #
          func_params_findall (drop 1 (dropWhile (\<lambda>x. x \<noteq> CHR 0x22) cs))
      else if is_word c then
        (c # takeWhile is_word cs) # func_params_findall (dropWhile is_word cs)
      else if \<not> isspace c then [c] # func_params_findall cs
      else func_params_findall cs)"
  by pat_completeness auto
termination
  by (relation "measure length")
     (auto simp: less_Suc_eq_le length_dropWhile_le intro: le_trans [OF diff_le_self])

text \<open>
  Step 1 of \<^verbatim>\<open>python_func_kw_matches\<close>: the \<^verbatim>\<open>for ... else\<close> loop over the reversed
  tokens. The result is what is left of the iterator after the \<^verbatim>\<open>break\<close>, or \<open>None\<close> for
  the \<^verbatim>\<open>return []\<close> of the \<^verbatim>\<open>else\<close> branch.
\<close>

fun find_open_par :: "string list \<Rightarrow> int \<Rightarrow> string list option" where
  "find_open_par [] openPar = None"
| "find_open_par (token # rest) openPar =
     (if token = '')'' then find_open_par rest (openPar - 1)
      else if token = ''('' then
        (if openPar + 1 > 0 then Some rest else find_open_par rest (openPar + 1))
      else find_open_par rest openPar)"

text \<open>\<^verbatim>\<open>re.compile(r'\w+$').match\<close>.\<close>

definition isId :: "string \<Rightarrow> bool" where
  "isId s =
     (let t = (if s \<noteq> [] \<and> last s = CHR 0x0A then butlast s else s)
      in t \<noteq> [] \<and> list_all is_word t)"

text \<open>Step 2: the \<^verbatim>\<open>while True\<close> loop that collects \<^verbatim>\<open>ids\<close>, in the order of appending.\<close>

fun collect_ids :: "string list \<Rightarrow> string list" where
  "collect_ids [] = []"
| "collect_ids [t] = (if isId t then [t] else [])"
| "collect_ids (t # d # rest) =
     (if \<not> isId t then []
      else if d \<noteq> ''.'' then [t]
      else t # collect_ids rest)"

text \<open>\<^verbatim>\<open>'.'.join(xs)\<close>.\<close>

fun join_dot :: "string list \<Rightarrow> string" where
  "join_dot [] = []"
| "join_dot [x] = x"
| "join_dot (x # y # ys) = x @ ''.'' @ join_dot (y # ys)"

text \<open>The last loop: the named arguments of every callable match, \<^verbatim>\<open>continue\<close> on any exception.\<close>

definition arg_matches :: "'v env \<Rightarrow> 'v completer \<Rightarrow> string \<Rightarrow> string list \<Rightarrow> string list" where
  "arg_matches e self text callableMatches =
     concat (map (\<lambda>callableMatch.
       (case eval e callableMatch (namespace self) of
          None \<Rightarrow> []
        | Some obj \<Rightarrow>
            map (\<lambda>namedArg. namedArg @ ''='')
              (filter (\<lambda>namedArg. startswith namedArg text) (default_arguments e obj))))
       callableMatches)"

text \<open>
  \<^verbatim>\<open>python_func_kw_matches\<close> reads the line from \<^verbatim>\<open>self.get_line_buffer()\<close>, which exists
  only with readline: without it the call raises \<^verbatim>\<open>AttributeError\<close>.
\<close>

definition python_func_kw_matches ::
  "'v env \<Rightarrow> 'v completer \<Rightarrow> string \<Rightarrow> py_error + string list" where
  "python_func_kw_matches e self text =
     (if CHR ''.'' \<in> set text then Inr []
      else
        (case readline self of
           None \<Rightarrow> Inl AttributeError
         | Some (line_buffer, endidx) \<Rightarrow>
             (case find_open_par (rev (func_params_findall line_buffer)) 0 of
                None \<Rightarrow> Inr []
              | Some iterTokens \<Rightarrow>
                  (let ids = collect_ids iterTokens;
                       callableMatches =
                         (if length ids = 1 then global_matches e self (ids ! 0)
                          else attr_matches e self (join_dot (rev ids)))
                   in Inr (arg_matches e self text callableMatches)))))"

fun run_matcher :: "'v env \<Rightarrow> 'v completer \<Rightarrow> matcher \<Rightarrow> string \<Rightarrow> py_error + string list" where
  "run_matcher e self python_matches_m text = Inr (python_matches e self text)"
| "run_matcher e self file_matches_m text = Inr (file_matches e self text)"
| "run_matcher e self magic_matches_m text = Inr (magic_matches e self text)"
| "run_matcher e self alias_matches_m text = Inr (alias_matches e self text)"
| "run_matcher e self python_func_kw_matches_m text = python_func_kw_matches e self text"

section \<open>IPCompleter: dispatch and completion\<close>

text \<open>
  What \<^verbatim>\<open>dispatch_custom_completer\<close> keeps of the list a callback returns: the entries
  that start with the text, or, when there is none, those that do so without regard to case.
\<close>

definition filter_results :: "string \<Rightarrow> string list \<Rightarrow> string list" where
  "filter_results text res =
     (let withcase = filter (\<lambda>r. startswith r text) res
      in if withcase \<noteq> [] then withcase
         else filter (\<lambda>r. startswith (lower r) (lower text)) res)"

text \<open>
  The \<^verbatim>\<open>for c in itertools.chain(...)\<close> loop of \<^verbatim>\<open>dispatch_custom_completer\<close>. Beside
  the result (\<open>None\<close> is Python's \<^verbatim>\<open>None\<close>) it counts the callbacks it has called.
\<close>

fun try_completers ::
  "callback list \<Rightarrow> event \<Rightarrow> string \<Rightarrow> nat \<Rightarrow> nat \<times> (py_error + string list option)" where
  "try_completers [] ev text n = (n, Inr None)"
| "try_completers (c # cs) ev text n =
     (case c ev of
        TryNext \<Rightarrow> try_completers cs ev text (Suc n)
      | Raised \<Rightarrow> (Suc n, Inl CompleterError)
      | Matched res \<Rightarrow> (Suc n, Inr (Some (filter_results text res))))"

text \<open>The event that the callbacks get, and the callbacks the loop goes through, in its order.\<close>

definition dispatch_event :: "'v completer \<Rightarrow> string \<Rightarrow> event" where
  "dispatch_event self text =
     \<lparr>line = full_lbuf self, symbol = text, command = first_word (full_lbuf self)\<rparr>"

definition completer_chain :: "'v completer \<Rightarrow> callback list" where
  "completer_chain self =
     (let cmd = first_word (full_lbuf self);
          try_magic =
            (if \<not> startswith cmd (magic_escape self)
             then s_matches (custom_completers self) (magic_escape self @ cmd)
             else [])
      in s_matches (custom_completers self) cmd @ try_magic @
         flat_matches (custom_completers self) (lbuf self))"

definition dispatch_custom_completer ::
  "'v completer \<Rightarrow> string \<Rightarrow> nat \<times> (py_error + string list option)" where
  "dispatch_custom_completer self text =
     (if strip (full_lbuf self) = '''' then (0, Inr None)
      else try_completers (completer_chain self) (dispatch_event self text) text 0)"

text \<open>
  The two loops over \<^verbatim>\<open>self.matchers\<close> in \<^verbatim>\<open>complete\<close>. Each gives the new
  \<^verbatim>\<open>self.matches\<close> and the matchers it has called, in order.
\<close>

fun merge_loop ::
  "'v env \<Rightarrow> 'v completer \<Rightarrow> string \<Rightarrow> matcher list \<Rightarrow> string list \<Rightarrow> matcher list \<Rightarrow>
     py_error + (string list \<times> matcher list)" where
  "merge_loop e self text [] acc called = Inr (acc, called)"
| "merge_loop e self text (m # ms) acc called =
     (case run_matcher e self m text of
        Inl err \<Rightarrow> Inl err
      | Inr res \<Rightarrow> merge_loop e self text ms (acc @ res) (called @ [m]))"

fun first_loop ::
  "'v env \<Rightarrow> 'v completer \<Rightarrow> string \<Rightarrow> matcher list \<Rightarrow> string list \<Rightarrow> matcher list \<Rightarrow>
     py_error + (string list \<times> matcher list)" where
  "first_loop e self text [] acc called = Inr (acc, called)"
| "first_loop e self text (m # ms) acc called =
     (case run_matcher e self m text of
        Inl err \<Rightarrow> Inl err
      | Inr res \<Rightarrow>
          if res \<noteq> [] then Inr (res, called @ [m])
          else first_loop e self text ms res (called @ [m]))"

text \<open>The \<^verbatim>\<open>else\<close> branch of \<^verbatim>\<open>complete\<close>: the built-in matchers, merged or first match.\<close>

definition run_pipeline ::
  "'v env \<Rightarrow> 'v completer \<Rightarrow> string \<Rightarrow> py_error + (string list \<times> matcher list)" where
  "run_pipeline e self text =
     (if merge_completions self then merge_loop e self text (matchers self) [] []
      else first_loop e self text (matchers self) [] [])"

text \<open>
  \<^verbatim>\<open>IPCompleter.complete\<close>, first part (up to \<^verbatim>\<open>self.matches[:] = []\<close>): the cursor
  position, the text, the line buffer; \<^verbatim>\<open>len(None)\<close> and a split of \<^verbatim>\<open>None\<close> raise
  \<^verbatim>\<open>TypeError\<close>. The result is the text and the completer with its new attributes.
\<close>

definition resolve_request ::
  "'v env \<Rightarrow> 'v completer \<Rightarrow> string option \<Rightarrow> string option \<Rightarrow> int option \<Rightarrow>
     py_error + (string \<times> 'v completer)" where
  "resolve_request e self text_in line_buffer_in cursor_pos_in =
     (case (case cursor_pos_in of
              Some c \<Rightarrow> Inr c
            | None \<Rightarrow>
                (case text_in of
                   None \<Rightarrow>
                     (case line_buffer_in of
                        None \<Rightarrow> Inl TypeError
                      | Some lb \<Rightarrow> Inr (int (length lb)))
                 | Some t \<Rightarrow> Inr (int (length t)))) of
        Inl err \<Rightarrow> Inl err
      | Inr cursor_pos \<Rightarrow>
          (case (case text_in of
                   None \<Rightarrow> split_line line_buffer_in (Some cursor_pos)
                 | Some t \<Rightarrow>
                     if t = '''' then split_line line_buffer_in (Some cursor_pos)
                     else Inr t) of
             Inl err \<Rightarrow> Inl err
           | Inr text1 \<Rightarrow>
               (let line_buffer = (case line_buffer_in of None \<Rightarrow> text1 | Some lb \<Rightarrow> lb);
                    text = (if startswith text1 ''~'' then expanduser e text1 else text1)
                in Inr (text,
                        self\<lparr>full_lbuf := line_buffer,
                             lbuf := slice_to line_buffer cursor_pos,
                             matches := []\<rparr>))))"

text \<open>
  \<^verbatim>\<open>IPCompleter.complete\<close>, second part: the custom completers, else the matchers, then
  \<^verbatim>\<open>sorted(set(self.matches))\<close>. The result is the returned pair
  \<^verbatim>\<open>(text, self.matches)\<close>, the completer as the call leaves it, and the matchers that the
  call has run.
\<close>

definition complete_matches ::
  "'v env \<Rightarrow> 'v completer \<Rightarrow> string \<Rightarrow>
     py_error + ((string \<times> string list) \<times> 'v completer \<times> matcher list)" where
  "complete_matches e self text =
     (case dispatch_custom_completer self text of
        (n, Inl err) \<Rightarrow> Inl err
      | (n, Inr (Some custom_res)) \<Rightarrow>
          Inr ((text, sorted_set custom_res), self\<lparr>matches := sorted_set custom_res\<rparr>, [])
      | (n, Inr None) \<Rightarrow>
          (case run_pipeline e self text of
             Inl err \<Rightarrow> Inl err
           | Inr (ms, called) \<Rightarrow>
               Inr ((text, sorted_set ms), self\<lparr>matches := sorted_set ms\<rparr>, called)))"

definition complete ::
  "'v env \<Rightarrow> 'v completer \<Rightarrow> string option \<Rightarrow> string option \<Rightarrow> int option \<Rightarrow>
     py_error + ((string \<times> string list) \<times> 'v completer \<times> matcher list)" where
  "complete e self text_in line_buffer_in cursor_pos_in =
     (case resolve_request e self text_in line_buffer_in cursor_pos_in of
        Inl err \<Rightarrow> Inl err
      | Inr (text, self1) \<Rightarrow> complete_matches e self1 text)"

text \<open>
  \<^verbatim>\<open>IPCompleter.rlcomplete\<close>: the returned value and the completer after the call.
  \<^verbatim>\<open>self.readline.insert_text('\t')\<close> acts on the terminal's line, which is read anew at
  the next call, and is left out.
\<close>

definition rlcomplete ::
  "'v env \<Rightarrow> 'v completer \<Rightarrow> string \<Rightarrow> int \<Rightarrow> py_error + (string option \<times> 'v completer)" where
  "rlcomplete e self text state =
     (if state = 0 then
        (case readline self of
           None \<Rightarrow> Inl AttributeError
         | Some (line_buffer, cursor_pos) \<Rightarrow>
             (let self1 = self\<lparr>full_lbuf := line_buffer\<rparr>
              in if \<not> (dumb_terminal self1 \<or> strip line_buffer \<noteq> '''') then Inr (None, self1)
                 else
                   (case complete e self1 (Some text) (Some line_buffer) (Some cursor_pos) of
                      Inl err \<Rightarrow> Inl err
                    | Inr (res, self2, called) \<Rightarrow>
                        Inr (index_or_none (matches self2) state, self2))))
      else Inr (index_or_none (matches self) state, self))"

section \<open>A small world for the scenarios\<close>

text \<open>
  The scenarios of the specification need a file system, an interpreter and a shell. The
  values are functions with their argument names and number of defaults, and objects with
  their attribute names.
\<close>

datatype py_value = PyFunction "string list" nat | PyObject "string list"

text \<open>
  On a line without quotes and backslashes \<^verbatim>\<open>shlex.split\<close> splits at whitespace; the
  scenarios use no other lines, and the others are given as the \<^verbatim>\<open>ValueError\<close> case.
\<close>

fun split_ws :: "string \<Rightarrow> string \<Rightarrow> string list" where
  "split_ws [] w = (if w = [] then [] else [w])"
| "split_ws (c # cs) w =
     (if isspace c then (if w = [] then split_ws cs [] else w # split_ws cs [])
      else split_ws cs (w @ [c]))"

definition scenario_shlex_split :: "string \<Rightarrow> string list option" where
  "scenario_shlex_split s =
     (if CHR 0x22 \<in> set s \<or> CHR 0x27 \<in> set s \<or> CHR 0x5C \<in> set s then None
      else Some (split_ws s []))"

text \<open>
  The current directory holds the file \<^verbatim>\<open>a.txt\<close> and the directory \<^verbatim>\<open>sub\<close>, which is
  empty. \<^verbatim>\<open>glob\<close> of a name followed by \<^verbatim>\<open>*\<close> gives the entries that start with the name.
\<close>

definition scenario_glob :: "string \<Rightarrow> string list" where
  "scenario_glob pat =
     (if pat \<noteq> [] \<and> last pat = CHR ''*''
      then filter (\<lambda>f. startswith f (butlast pat)) [''a.txt'', ''sub'']
      else filter (\<lambda>f. f = pat) [''a.txt'', ''sub''])"

definition scenario_eval :: "string \<Rightarrow> (string \<times> py_value) list \<Rightarrow> py_value option" where
  "scenario_eval expr ns =
     (if expr = [CHR 0x27, CHR 0x27] then Some (PyObject [''join'', ''lower''])
      else map_of ns expr)"

definition scenario_env :: "py_value env" where
  "scenario_env =
     \<lparr>win32 = False,
      glob = scenario_glob,
      isdir = (\<lambda>p. p = ''sub'' \<or> p = ''sub/''),
      home_expand = (\<lambda>p. ''/home/user'' @ drop 1 p),
      shlex_split = scenario_shlex_split,
      kwlist = [''and'', ''as'', ''assert'', ''break'', ''class'', ''continue'', ''def'', ''del'',
        ''elif'', ''else'', ''except'', ''exec'', ''finally'', ''for'', ''from'', ''global'', ''if'',
        ''import'', ''in'', ''is'', ''lambda'', ''not'', ''or'', ''pass'', ''print'', ''raise'',
        ''return'', ''try'', ''while'', ''with'', ''yield''],
      builtin_names = [''abs'', ''len''],
      eval = scenario_eval,
      dir2 = (\<lambda>v. case v of PyObject attrs \<Rightarrow> attrs | PyFunction args n \<Rightarrow> []),
      complete_object = (\<lambda>v ws. None),
      isfunction = (\<lambda>v. case v of PyFunction args n \<Rightarrow> True | PyObject attrs \<Rightarrow> False),
      ismethod = (\<lambda>v. False),
      isclass = (\<lambda>v. False),
      getattr_init = (\<lambda>v. None),
      getattr_new = (\<lambda>v. None),
      getattr_call = (\<lambda>v. None),
      getargspec = (\<lambda>v. case v of PyFunction args n \<Rightarrow> Some (args, n) | PyObject attrs \<Rightarrow> None),
      lsmagic = [''cd'', ''time'', ''timeit'']\<rparr>"

text \<open>
  A completer on an empty line: \<^verbatim>\<open>foo\<close> is bound to a function \<^verbatim>\<open>foo(bar, baz=.., qux=..)\<close>,
  \<^verbatim>\<open>alpha\<close> to an object with the members \<^verbatim>\<open>beta\<close> and \<^verbatim>\<open>gamma\<close>.
\<close>

definition scenario_completer :: "py_value completer" where
  "scenario_completer =
     \<lparr>namespace = [(''foo'', PyFunction [''bar'', ''baz'', ''qux''] 2),
                   (''alpha'', PyObject [''beta'', ''gamma''])],
      global_namespace = [],
      magic_escape = ''%'',
      readline = Some ('''', 0),
      matches = [],
      omit__names = 0,
      merge_completions = True,
      alias_table = [''ls'', ''ll''],
      dumb_terminal = False,
      matchers = default_matchers,
      custom_completers = [],
      full_lbuf = '''',
      lbuf = ''''\<rparr>"

text \<open>The completer when the terminal's line is \<open>buf\<close> with the cursor at its end.\<close>

definition on_line :: "string \<Rightarrow> py_value completer" where
  "on_line buf =
     scenario_completer\<lparr>readline := Some (buf, int (length buf)), full_lbuf := buf, lbuf := buf\<rparr>"

text \<open>
  Custom completers for the scenarios: one that offers \<^verbatim>\<open>xb\<close>, \<^verbatim>\<open>xa\<close> and \<^verbatim>\<open>xb\<close> again,
  one that offers nothing, one that defers and one that fails.
\<close>

definition offer_x :: callback where
  "offer_x ev = Matched [''xb'', ''xa'', ''xb'']"

definition offer_nothing :: callback where
  "offer_nothing ev = Matched []"

definition deferring :: callback where
  "deferring ev = TryNext"

definition failing :: callback where
  "failing ev = Raised"

text \<open>The completer on the line \<open>buf\<close> with the registry \<open>reg\<close>.\<close>

definition with_registry :: "registry \<Rightarrow> string \<Rightarrow> py_value completer" where
  "with_registry reg buf = (on_line buf)\<lparr>custom_completers := reg\<rparr>"

section \<open>Reading results\<close>

text \<open>
  What a call gives back to its caller, without the completer it leaves behind: the pair
  \<^verbatim>\<open>(text, matches)\<close> of \<^verbatim>\<open>complete\<close>, the value of \<^verbatim>\<open>rlcomplete\<close>, or the error.
\<close>

definition result_of :: "'e + ('a \<times> 'b) \<Rightarrow> 'e + 'a" where
  "result_of r = map_sum id fst r"

text \<open>The matchers that a call of \<^verbatim>\<open>complete\<close> has run.\<close>

definition called_of :: "'e + ('a \<times> 'b \<times> 'c) \<Rightarrow> 'e + 'c" where
  "called_of r = map_sum id (\<lambda>(a, b, c). c) r"

section \<open>The grammar of the specification\<close>

text \<open>
  The specification describes the tokens that \<^verbatim>\<open>attr_matches\<close> accepts by the grammar
  \<^verbatim>\<open>identifier(.identifier)*.partial\<close>. This is that grammar, from the specification's
  words, to compare with \<open>attr_re_match\<close>: the pieces between the dots, all but the last
  identifiers, the last a possibly empty run of word characters.
\<close>

fun split_dots :: "string \<Rightarrow> string \<Rightarrow> string list" where
  "split_dots [] piece = [piece]"
| "split_dots (c # cs) piece =
     (if c = CHR ''.'' then piece # split_dots cs [] else split_dots cs (piece @ [c]))"

definition is_identifier :: "string \<Rightarrow> bool" where
  "is_identifier s = (s \<noteq> [] \<and> hd s \<notin> set ''0123456789'' \<and> list_all is_word s)"

definition spec_dotted_grammar :: "string \<Rightarrow> bool" where
  "spec_dotted_grammar text =
     (let pieces = split_dots text []
      in 2 \<le> length pieces \<and> list_all is_identifier (butlast pieces) \<and>
         list_all is_word (last pieces))"

section \<open>The scenario world, field by field\<close>

lemma scenario_env_simps:
  "win32 scenario_env = False"
  "glob scenario_env = scenario_glob"
  "isdir scenario_env = (\<lambda>p. p = ''sub'' \<or> p = ''sub/'')"
  "home_expand scenario_env = (\<lambda>p. ''/home/user'' @ drop 1 p)"
  "shlex_split scenario_env = scenario_shlex_split"
  "builtin_names scenario_env = [''abs'', ''len'']"
  "eval scenario_env = scenario_eval"
  "complete_object scenario_env = (\<lambda>v ws. None)"
  "ismethod scenario_env = (\<lambda>v. False)"
  "isclass scenario_env = (\<lambda>v. False)"
  "getattr_init scenario_env = (\<lambda>v. None)"
  "getattr_new scenario_env = (\<lambda>v. None)"
  "getattr_call scenario_env = (\<lambda>v. None)"
  "lsmagic scenario_env = [''cd'', ''time'', ''timeit'']"
  by (simp_all add: scenario_env_def)


lemma on_line_simps:
  "namespace (on_line buf) =
     [(''foo'', PyFunction [''bar'', ''baz'', ''qux''] 2), (''alpha'', PyObject [''beta'', ''gamma''])]"
  "global_namespace (on_line buf) = []"
  "magic_escape (on_line buf) = ''%''"
  "readline (on_line buf) = Some (buf, int (length buf))"
  "omit__names (on_line buf) = 0"
  "merge_completions (on_line buf) = True"
  "alias_table (on_line buf) = [''ls'', ''ll'']"
  "dumb_terminal (on_line buf) = False"
  "matchers (on_line buf) = default_matchers"
  "custom_completers (on_line buf) = []"
  "full_lbuf (on_line buf) = buf"
  "lbuf (on_line buf) = buf"
  by (simp_all add: on_line_def scenario_completer_def)

lemma with_registry_simps:
  "namespace (with_registry reg buf) = namespace (on_line buf)"
  "global_namespace (with_registry reg buf) = []"
  "magic_escape (with_registry reg buf) = ''%''"
  "readline (with_registry reg buf) = Some (buf, int (length buf))"
  "omit__names (with_registry reg buf) = 0"
  "merge_completions (with_registry reg buf) = True"
  "alias_table (with_registry reg buf) = [''ls'', ''ll'']"
  "dumb_terminal (with_registry reg buf) = False"
  "matchers (with_registry reg buf) = default_matchers"
  "custom_completers (with_registry reg buf) = reg"
  "full_lbuf (with_registry reg buf) = buf"
  "lbuf (with_registry reg buf) = buf"
  by (simp_all add: with_registry_def on_line_simps)

lemmas str_simps = strip_def isspace_def whitespace_chars_def first_word_def startswith_def

section \<open>Directory marking\<close>

lemma mark_dirs_loop_map:
  "mark_dirs_loop isd xs out = out @ map (\<lambda>x. if isd x then x @ ''/'' else x) xs"
  by (induction xs arbitrary: out) simp_all

lemma mark_dirs_map:
  "mark_dirs e xs = map (\<lambda>x. if isdir e x then x @ ''/'' else x) xs"
  by (simp add: mark_dirs_def mark_dirs_loop_map)

text \<open>
  C9, as the code has it: \<^verbatim>\<open>mark_dirs\<close> appends one separator to every entry that
  \<^verbatim>\<open>os.path.isdir\<close> reports as a directory, whether or not the entry already ends with the
  separator, and leaves every other entry as it is. Marking a second time changes nothing
  exactly when no entry that was marked is reported as a directory in its marked form.
\<close>

theorem mark_dirs_marks_every_directory:
  "mark_dirs e xs = map (\<lambda>x. if isdir e x then x @ ''/'' else x) xs \<and>
   (mark_dirs e (mark_dirs e xs) = mark_dirs e xs \<longleftrightarrow>
      list_all (\<lambda>x. isdir e x \<longrightarrow> \<not> isdir e (x @ ''/'')) xs)"
proof
  show "mark_dirs e xs = map (\<lambda>x. if isdir e x then x @ ''/'' else x) xs"
    by (rule mark_dirs_map)
  show "mark_dirs e (mark_dirs e xs) = mark_dirs e xs \<longleftrightarrow>
      list_all (\<lambda>x. isdir e x \<longrightarrow> \<not> isdir e (x @ ''/'')) xs"
    by (induction xs) (auto simp: mark_dirs_map)
qed

theorem mark_dirs_marks_every_directory_witness:
  "mark_dirs scenario_env [''a.txt'', ''sub''] = [''a.txt'', ''sub/''] \<and>
   mark_dirs scenario_env (mark_dirs scenario_env [''a.txt'', ''sub'']) \<noteq>
     mark_dirs scenario_env [''a.txt'', ''sub'']"
  using mark_dirs_marks_every_directory [of scenario_env "[''a.txt'', ''sub'']"]
  by (simp add: scenario_env_simps mark_dirs_def)

text \<open>
  C9 as the specification states it fails: \<^verbatim>\<open>sub/\<close> is a directory and ends with the
  separator, and marking it gives \<^verbatim>\<open>sub//\<close>.
\<close>

theorem mark_dirs_idempotent_counterexample:
  "isdir scenario_env ''sub/'' \<and> endswith ''sub/'' ''/'' \<and>
   mark_dirs scenario_env [''sub/''] = [''sub//''] \<and>
   mark_dirs scenario_env [''sub/''] \<noteq> [''sub/'']"
  by (simp add: mark_dirs_def scenario_env_simps endswith_def)

section \<open>The file matcher on an empty token\<close>

text \<open>
  C1: in the directory that holds the file \<^verbatim>\<open>a.txt\<close> and the directory \<^verbatim>\<open>sub\<close>, the
  empty token on an empty line returns \<^verbatim>\<open>sub\<close> without the separator: the branch for
  the empty text returns before \<^verbatim>\<open>mark_dirs\<close>. The branch for a text that is not empty
  marks the same directory.
\<close>

theorem file_matches_empty_token_unmarked:
  "isdir scenario_env ''sub'' \<and>
   file_matches scenario_env (on_line '''') '''' = [''a.txt'', ''sub''] \<and>
   file_matches scenario_env (on_line ''su'') ''su'' = [''sub/'']"
  by (simp add: file_matches_def find_lsplit_def scenario_env_simps on_line_simps
      scenario_shlex_split_def scenario_glob_def startswith_def
      protect_filename_def PROTECTABLES_def expanduser_def clean_glob_def mark_dirs_def
      isspace_def whitespace_chars_def)

section \<open>Dispatch\<close>

lemma try_completers_deferred:
  "list_all (\<lambda>c. c ev = TryNext) xs \<Longrightarrow>
     try_completers (xs @ ys) ev text n = try_completers ys ev text (n + length xs)"
  by (induction xs arbitrary: n) simp_all

lemma try_completers_none:
  "snd (try_completers cs ev text n) = Inr None \<longleftrightarrow> list_all (\<lambda>c. c ev = TryNext) cs"
  by (induction cs arbitrary: n) (simp_all split: cb_result.splits)

lemma dispatch_none:
  "snd (dispatch_custom_completer self text) = Inr None \<longleftrightarrow>
     strip (full_lbuf self) = '''' \<or>
     list_all (\<lambda>c. c (dispatch_event self text) = TryNext) (completer_chain self)"
  by (simp add: dispatch_custom_completer_def try_completers_none)

text \<open>
  C7, as the code has it: the retry goes from the bare command to its magic form. When the
  command word of the line does not start with the magic escape, the callbacks registered
  for the escape followed by the command are tried after those registered for the command
  itself; the first of them is called as soon as all of the latter have deferred. When the
  command word starts with the escape there is no retry: with nothing registered for the
  command word as it stands and no flat pattern that matches, no callback is called.
\<close>

theorem magic_form_retry_for_bare_command:
  "(strip (full_lbuf self) \<noteq> '''' \<and>
    \<not> startswith (first_word (full_lbuf self)) (magic_escape self) \<and>
    list_all (\<lambda>c. c (dispatch_event self text) = TryNext)
      (s_matches (custom_completers self) (first_word (full_lbuf self))) \<and>
    s_matches (custom_completers self) (magic_escape self @ first_word (full_lbuf self)) = cb # rest \<and>
    cb (dispatch_event self text) = Matched res
    \<longrightarrow> dispatch_custom_completer self text =
          (Suc (length (s_matches (custom_completers self) (first_word (full_lbuf self)))),
           Inr (Some (filter_results text res)))) \<and>
   (strip (full_lbuf self) \<noteq> '''' \<and>
    startswith (first_word (full_lbuf self)) (magic_escape self) \<and>
    s_matches (custom_completers self) (first_word (full_lbuf self)) = [] \<and>
    flat_matches (custom_completers self) (lbuf self) = []
    \<longrightarrow> dispatch_custom_completer self text = (0, Inr None))"
  by (simp add: dispatch_custom_completer_def completer_chain_def try_completers_deferred)

theorem magic_form_retry_for_bare_command_witness:
  "dispatch_custom_completer (with_registry [(Exact ''%foo'', offer_x)] ''foo x'') ''x'' =
     (1, Inr (Some [''xb'', ''xa'', ''xb''])) \<and>
   dispatch_custom_completer (with_registry [(Exact ''bar'', offer_x)] ''%foo x'') ''x'' =
     (0, Inr None)"
  using magic_form_retry_for_bare_command
    [of "with_registry [(Exact ''%foo'', offer_x)] ''foo x''" "''x''" offer_x "[]"
        "[''xb'', ''xa'', ''xb'']"]
    magic_form_retry_for_bare_command
    [of "with_registry [(Exact ''bar'', offer_x)] ''%foo x''" "''x''"]
  by (simp add: with_registry_simps str_simps offer_x_def filter_results_def)

text \<open>
  C7 as the specification states it fails: with \<^verbatim>\<open>offer_x\<close> registered for \<^verbatim>\<open>foo\<close> and
  nothing registered for \<^verbatim>\<open>%foo\<close>, the line \<^verbatim>\<open>%foo x\<close> calls no callback.
\<close>

theorem bare_completer_for_magic_form_counterexample:
  "first_word ''%foo x'' = ''%foo'' \<and>
   s_matches [(Exact ''foo'', offer_x)] ''%foo'' = [] \<and>
   offer_x (dispatch_event (with_registry [(Exact ''foo'', offer_x)] ''%foo x'') ''x'') =
     Matched [''xb'', ''xa'', ''xb''] \<and>
   dispatch_custom_completer (with_registry [(Exact ''foo'', offer_x)] ''%foo x'') ''x'' =
     (0, Inr None)"
  by (simp add: dispatch_custom_completer_def completer_chain_def with_registry_simps str_simps
      offer_x_def)

section \<open>Sorting and the completer after a call\<close>

lemma sorted_set_sorted: "sorted (sorted_set xs) \<and> distinct (sorted_set xs)"
  by (simp add: sorted_set_def)

lemma complete_matches_sorted:
  "complete_matches e self text = Inr ((text', ms), self', called) \<Longrightarrow>
     sorted ms \<and> distinct ms \<and> matches self' = ms"
  by (auto simp: complete_matches_def sorted_set_sorted
      split: prod.splits sum.splits option.splits)

lemma complete_state:
  "complete e self text lb cp = Inr ((text', ms), self', called) \<Longrightarrow> matches self' = ms"
  by (auto simp: complete_def split: sum.splits prod.splits dest: complete_matches_sorted)

lemma resolve_request_given:
  "t \<noteq> '''' \<Longrightarrow> \<not> startswith t ''~'' \<Longrightarrow>
   resolve_request e self (Some t) (Some lb) (Some (int (length lb))) =
     Inr (t, self\<lparr>full_lbuf := lb, lbuf := lb, matches := []\<rparr>)"
  by (simp add: resolve_request_def slice_to_def Let_def)

lemma with_registry_request:
  "(with_registry reg buf)\<lparr>full_lbuf := buf, lbuf := buf, matches := []\<rparr> = with_registry reg buf"
  by (simp add: with_registry_def on_line_def scenario_completer_def)

lemma resolve_request_scenario:
  "t \<noteq> '''' \<Longrightarrow> \<not> startswith t ''~'' \<Longrightarrow>
   resolve_request scenario_env (with_registry reg buf) (Some t) (Some buf)
     (Some (int (length buf))) = Inr (t, with_registry reg buf)"
  by (simp add: resolve_request_given with_registry_request)

lemma on_line_registry: "on_line buf = with_registry [] buf"
  by (simp add: with_registry_def on_line_def scenario_completer_def)

section \<open>The returned match list\<close>

text \<open>
  C3: whatever \<^verbatim>\<open>complete\<close> returns, from a custom completer or from the matchers, merged
  or first match, the match list is sorted and has no duplicates, and it is the list the
  completer keeps in \<^verbatim>\<open>self.matches\<close>.
\<close>

theorem complete_sorted_distinct:
  "complete e self text line_buffer cursor_pos = Inr ((text', ms), self', called) \<Longrightarrow>
     sorted ms \<and> distinct ms \<and> matches self' = ms"
  by (auto simp: complete_def split: sum.splits prod.splits dest: complete_matches_sorted)

lemma dispatch_offer_x:
  "dispatch_custom_completer (with_registry [(Exact ''foo'', offer_x)] ''foo x'') ''x'' =
     (1, Inr (Some [''xb'', ''xa'', ''xb'']))"
  by (simp add: dispatch_custom_completer_def completer_chain_def with_registry_simps str_simps
      offer_x_def filter_results_def)

lemma sorted_set_offer_x: "sorted_set [''xb'', ''xa'', ''xb''] = [''xa'', ''xb'']"
  by (simp add: sorted_set_def)

lemma complete_offer_x:
  "complete scenario_env (with_registry [(Exact ''foo'', offer_x)] ''foo x'')
      (Some ''x'') (Some ''foo x'') (Some 5) =
     Inr ((''x'', [''xa'', ''xb'']),
          (with_registry [(Exact ''foo'', offer_x)] ''foo x'')\<lparr>matches := [''xa'', ''xb'']\<rparr>, [])"
  using resolve_request_scenario [of "''x''" "[(Exact ''foo'', offer_x)]" "''foo x''"]
  by (simp add: complete_def complete_matches_def dispatch_offer_x sorted_set_offer_x
      startswith_def)

theorem complete_sorted_distinct_witness:
  "result_of (complete scenario_env (with_registry [(Exact ''foo'', offer_x)] ''foo x'')
      (Some ''x'') (Some ''foo x'') (Some 5)) = Inr (''x'', [''xa'', ''xb'']) \<and>
   sorted [''xa'', ''xb''] \<and> distinct [''xa'', ''xb'']"
  using complete_sorted_distinct [OF complete_offer_x] complete_offer_x
  by (simp add: result_of_def)

section \<open>Custom completers come first\<close>

lemma sorted_set_set: "set (sorted_set xs) = set xs"
  by (simp add: sorted_set_def)

lemma dispatch_blank:
  "strip (full_lbuf self) = [] \<Longrightarrow> dispatch_custom_completer self text = (0, Inr None)"
  by (simp add: dispatch_custom_completer_def)

text \<open>
  C4, as the code has it: when \<^verbatim>\<open>dispatch_custom_completer\<close> returns a list, also an empty
  one, \<^verbatim>\<open>complete\<close> returns the members of that list (sorted, without duplicates) and runs
  no matcher; when it returns \<^verbatim>\<open>None\<close>, \<^verbatim>\<open>complete\<close> returns what the matchers give.
  \<^verbatim>\<open>None\<close> comes back exactly when the line is blank, where no callback is tried whatever
  is registered, or every callback of the chain has deferred.
\<close>

theorem custom_result_replaces_pipeline:
  "resolve_request e self text_in line_buffer cursor_pos = Inr (text, self1) \<Longrightarrow>
     (dispatch_custom_completer self1 text = (n, Inr (Some res)) \<longrightarrow>
        complete e self text_in line_buffer cursor_pos =
          Inr ((text, sorted_set res), self1\<lparr>matches := sorted_set res\<rparr>, []) \<and>
        set (sorted_set res) = set res \<and> sorted (sorted_set res) \<and>
        distinct (sorted_set res)) \<and>
     (dispatch_custom_completer self1 text = (n, Inr None) \<longrightarrow>
        complete e self text_in line_buffer cursor_pos =
          (case run_pipeline e self1 text of
             Inl err \<Rightarrow> Inl err
           | Inr (ms, called) \<Rightarrow>
               Inr ((text, sorted_set ms), self1\<lparr>matches := sorted_set ms\<rparr>, called))) \<and>
     (snd (dispatch_custom_completer self1 text) = Inr None \<longleftrightarrow>
        strip (full_lbuf self1) = '''' \<or>
        list_all (\<lambda>c. c (dispatch_event self1 text) = TryNext) (completer_chain self1)) \<and>
     (strip (full_lbuf self1) = '''' \<longrightarrow> fst (dispatch_custom_completer self1 text) = 0)"
  by (simp add: complete_def complete_matches_def dispatch_none sorted_set_set dispatch_blank
      sorted_set_sorted)

lemma dispatch_deferring:
  "dispatch_custom_completer (with_registry [(Exact ''foo'', deferring)] ''foo x'') ''x'' =
     (1, Inr None)"
  by (simp add: dispatch_custom_completer_def completer_chain_def with_registry_simps str_simps
      deferring_def)

lemma pipeline_foo_x:
  "run_pipeline scenario_env (with_registry [(Exact ''foo'', deferring)] ''foo x'') ''x'' =
     Inr ([], default_matchers)"
  by code_simp

lemma dispatch_offer_nothing:
  "dispatch_custom_completer (with_registry [(Exact ''foo'', offer_nothing)] ''foo x'') ''x'' =
     (1, Inr (Some []))"
  by (simp add: dispatch_custom_completer_def completer_chain_def with_registry_simps str_simps
      offer_nothing_def filter_results_def)

theorem custom_result_replaces_pipeline_witness:
  "dispatch_custom_completer (with_registry [(Exact ''foo'', offer_x)] ''foo x'') ''x'' =
     (1, Inr (Some [''xb'', ''xa'', ''xb''])) \<and>
   result_of (complete scenario_env (with_registry [(Exact ''foo'', offer_x)] ''foo x'')
      (Some ''x'') (Some ''foo x'') (Some 5)) = Inr (''x'', [''xa'', ''xb'']) \<and>
   called_of (complete scenario_env (with_registry [(Exact ''foo'', offer_x)] ''foo x'')
      (Some ''x'') (Some ''foo x'') (Some 5)) = Inr [] \<and>
   dispatch_custom_completer (with_registry [(Exact ''foo'', offer_nothing)] ''foo x'') ''x'' =
     (1, Inr (Some [])) \<and>
   result_of (complete scenario_env (with_registry [(Exact ''foo'', offer_nothing)] ''foo x'')
      (Some ''x'') (Some ''foo x'') (Some 5)) = Inr (''x'', []) \<and>
   called_of (complete scenario_env (with_registry [(Exact ''foo'', offer_nothing)] ''foo x'')
      (Some ''x'') (Some ''foo x'') (Some 5)) = Inr [] \<and>
   dispatch_custom_completer (with_registry [(Exact ''foo'', deferring)] ''foo x'') ''x'' =
     (1, Inr None) \<and>
   result_of (complete scenario_env (with_registry [(Exact ''foo'', deferring)] ''foo x'')
      (Some ''x'') (Some ''foo x'') (Some 5)) = Inr (''x'', []) \<and>
   called_of (complete scenario_env (with_registry [(Exact ''foo'', deferring)] ''foo x'')
      (Some ''x'') (Some ''foo x'') (Some 5)) = Inr default_matchers"
  using custom_result_replaces_pipeline
    [of scenario_env "with_registry [(Exact ''foo'', offer_x)] ''foo x''" "Some ''x''"
        "Some ''foo x''" "Some 5" "''x''" "with_registry [(Exact ''foo'', offer_x)] ''foo x''"
        1 "[''xb'', ''xa'', ''xb'']"]
    custom_result_replaces_pipeline
    [of scenario_env "with_registry [(Exact ''foo'', offer_nothing)] ''foo x''" "Some ''x''"
        "Some ''foo x''" "Some 5" "''x''" "with_registry [(Exact ''foo'', offer_nothing)] ''foo x''"
        1 "[]"]
    custom_result_replaces_pipeline
    [of scenario_env "with_registry [(Exact ''foo'', deferring)] ''foo x''" "Some ''x''"
        "Some ''foo x''" "Some 5" "''x''" "with_registry [(Exact ''foo'', deferring)] ''foo x''"
        1]
    resolve_request_scenario [of "''x''" "[(Exact ''foo'', offer_x)]" "''foo x''"]
    resolve_request_scenario [of "''x''" "[(Exact ''foo'', offer_nothing)]" "''foo x''"]
    resolve_request_scenario [of "''x''" "[(Exact ''foo'', deferring)]" "''foo x''"]
  by (simp add: dispatch_offer_x dispatch_offer_nothing dispatch_deferring pipeline_foo_x
      sorted_set_offer_x result_of_def called_of_def startswith_def sorted_set_def)

text \<open>
  C4 as the specification states it fails on a blank line: a flat pattern matches the line
  of two spaces and its callback would return a list, but \<^verbatim>\<open>dispatch_custom_completer\<close>
  returns \<^verbatim>\<open>None\<close> and has called nothing.
\<close>

theorem dispatch_blank_line_untried_counterexample:
  "map (\<lambda>c. c (dispatch_event (with_registry [(Flat (\<lambda>buf. True), offer_x)] ''  '') ''''))
     (flat_matches (custom_completers (with_registry [(Flat (\<lambda>buf. True), offer_x)] ''  ''))
        (lbuf (with_registry [(Flat (\<lambda>buf. True), offer_x)] ''  ''))) =
     [Matched [''xb'', ''xa'', ''xb'']] \<and>
   dispatch_custom_completer (with_registry [(Flat (\<lambda>buf. True), offer_x)] ''  '') '''' =
     (0, Inr None)"
  by (simp add: dispatch_custom_completer_def with_registry_simps str_simps offer_x_def)

section \<open>One request, two ways to read it\<close>

lemma resolve_request_full_lbuf:
  "resolve_request e (self\<lparr>full_lbuf := x\<rparr>) text lb cp = resolve_request e self text lb cp"
  by (simp add: resolve_request_def Let_def split: option.splits sum.splits)

lemma complete_full_lbuf:
  "complete e (self\<lparr>full_lbuf := x\<rparr>) text lb cp = complete e self text lb cp"
  by (simp add: complete_def resolve_request_full_lbuf)

section \<open>The matchers on a blank line\<close>

lemma run_matcher_returns:
  "readline self \<noteq> None \<or> m \<noteq> python_func_kw_matches_m \<Longrightarrow>
     \<exists>res. run_matcher e self m text = Inr res"
  by (cases m) (auto simp: python_func_kw_matches_def Let_def split: option.splits)

lemma projr_run_matcher:
  "projr (run_matcher e self m text) =
     (case m of
        python_matches_m \<Rightarrow> python_matches e self text
      | file_matches_m \<Rightarrow> file_matches e self text
      | magic_matches_m \<Rightarrow> magic_matches e self text
      | alias_matches_m \<Rightarrow> alias_matches e self text
      | python_func_kw_matches_m \<Rightarrow> projr (python_func_kw_matches e self text))"
  by (cases m) simp_all

lemma merge_loop_runs_all:
  "\<forall>m \<in> set ms. \<exists>res. run_matcher e self m text = Inr res \<Longrightarrow>
   merge_loop e self text ms acc called =
     Inr (acc @ concat (map (\<lambda>m. projr (run_matcher e self m text)) ms), called @ ms)"
  by (induction ms arbitrary: acc called) auto

lemma first_loop_runs_to_first_match:
  "\<forall>m \<in> set ms. \<exists>res. run_matcher e self m text = Inr res \<Longrightarrow>
   first_loop e self text ms [] called =
     Inr (concat (map (\<lambda>m. projr (run_matcher e self m text))
            (takeWhile (\<lambda>m. projr (run_matcher e self m text) = []) ms @
             take 1 (dropWhile (\<lambda>m. projr (run_matcher e self m text) = []) ms))),
          called @ takeWhile (\<lambda>m. projr (run_matcher e self m text) = []) ms @
            take 1 (dropWhile (\<lambda>m. projr (run_matcher e self m text) = []) ms))"
  by (induction ms arbitrary: called) auto

lemma run_pipeline_runs:
  assumes "readline self \<noteq> None \<or> python_func_kw_matches_m \<notin> set (matchers self)"
  shows "run_pipeline e self text =
     (let out = (\<lambda>m. projr (run_matcher e self m text));
          called = (if merge_completions self then matchers self
                    else takeWhile (\<lambda>m. out m = []) (matchers self) @
                         take 1 (dropWhile (\<lambda>m. out m = []) (matchers self)))
      in Inr (concat (map out called), called))"
proof -
  have "\<forall>m \<in> set (matchers self). \<exists>res. run_matcher e self m text = Inr res"
    using assms by (auto intro!: run_matcher_returns)
  then show ?thesis
    by (simp add: run_pipeline_def Let_def merge_loop_runs_all first_loop_runs_to_first_match)
qed

lemma resolve_request_keeps:
  "resolve_request e self text_in line_buffer cursor_pos = Inr (text, self1) \<Longrightarrow>
     readline self1 = readline self \<and> matchers self1 = matchers self \<and>
     merge_completions self1 = merge_completions self \<and>
     custom_completers self1 = custom_completers self \<and>
     (\<forall>lb. line_buffer = Some lb \<longrightarrow> full_lbuf self1 = lb)"
  by (auto simp: resolve_request_def Let_def split: option.splits sum.splits if_splits)

lemma resolve_request_blank:
  "resolve_request scenario_env (with_registry reg ''  '') (Some '''') (Some ''  '') (Some 2) =
     Inr ('''', with_registry reg ''  '')"
proof -
  have "split_line (Some ''  '') (Some 2) = Inr ''''"
    by (simp add: split_line_def slice_to_def default_delims_def)
  then show ?thesis
    using with_registry_request [of "''  ''" reg]
    by (simp add: resolve_request_def slice_to_def Let_def startswith_def)
qed

text \<open>
  C10, as the code has it: on a line that is empty or all whitespace
  \<^verbatim>\<open>dispatch_custom_completer\<close> returns \<^verbatim>\<open>None\<close> and has called no callback, whatever is
  registered. A call of \<^verbatim>\<open>complete\<close> on such a line returns what the built-in matchers
  give: when no matcher raises (only \<^verbatim>\<open>python_func_kw_matches\<close> can, without readline), the
  matchers that run are all of \<^verbatim>\<open>self.matchers\<close> in merge mode, and otherwise those up to
  and including the first one with a result that is not empty, and the returned list holds
  what these matchers return. \<^verbatim>\<open>rlcomplete\<close> with state 0 calls \<^verbatim>\<open>complete\<close> on such a
  line only on a dumb terminal; on any other it returns \<^verbatim>\<open>None\<close> and leaves the matches of
  the completer as they were.
\<close>

theorem blank_line_no_custom_completer:
  "(strip (full_lbuf self1) = '''' \<longrightarrow> dispatch_custom_completer self1 text = (0, Inr None)) \<and>
   (resolve_request e self text_in line_buffer cursor_pos = Inr (text, self1) \<and>
    strip (full_lbuf self1) = '''' \<longrightarrow>
      (\<forall>lb. line_buffer = Some lb \<longrightarrow> full_lbuf self1 = lb) \<and>
      complete e self text_in line_buffer cursor_pos =
        (case run_pipeline e self1 text of
           Inl err \<Rightarrow> Inl err
         | Inr (ms, called) \<Rightarrow>
             Inr ((text, sorted_set ms), self1\<lparr>matches := sorted_set ms\<rparr>, called)) \<and>
      (readline self1 \<noteq> None \<or> python_func_kw_matches_m \<notin> set (matchers self1) \<longrightarrow>
         (let out = (\<lambda>m. case m of
                           python_matches_m \<Rightarrow> python_matches e self1 text
                         | file_matches_m \<Rightarrow> file_matches e self1 text
                         | magic_matches_m \<Rightarrow> magic_matches e self1 text
                         | alias_matches_m \<Rightarrow> alias_matches e self1 text
                         | python_func_kw_matches_m \<Rightarrow>
                             projr (python_func_kw_matches e self1 text));
              called = (if merge_completions self1 then matchers self1
                        else takeWhile (\<lambda>m. out m = []) (matchers self1) @
                             take 1 (dropWhile (\<lambda>m. out m = []) (matchers self1)));
              ms = sorted_set (concat (map out called))
          in complete e self text_in line_buffer cursor_pos =
               Inr ((text, ms), self1\<lparr>matches := ms\<rparr>, called)))) \<and>
   (readline self = Some (buf, pos) \<and> strip buf = '''' \<longrightarrow>
      rlcomplete e self t 0 =
        (if dumb_terminal self then
           (case complete e self (Some t) (Some buf) (Some pos) of
              Inl err \<Rightarrow> Inl err
            | Inr (res, self2, called) \<Rightarrow> Inr (index_or_none (matches self2) 0, self2))
         else Inr (None, self\<lparr>full_lbuf := buf\<rparr>)))"
proof (intro conjI impI)
  assume "strip (full_lbuf self1) = ''''"
  then show "dispatch_custom_completer self1 text = (0, Inr None)"
    by (simp add: dispatch_custom_completer_def)
next
  assume a: "resolve_request e self text_in line_buffer cursor_pos = Inr (text, self1) \<and>
    strip (full_lbuf self1) = ''''"
  then have d: "dispatch_custom_completer self1 text = (0, Inr None)"
    by (simp add: dispatch_custom_completer_def)
  show "\<forall>lb. line_buffer = Some lb \<longrightarrow> full_lbuf self1 = lb"
    using a resolve_request_keeps [of e self text_in line_buffer cursor_pos "text" self1] by simp
  show c: "complete e self text_in line_buffer cursor_pos =
       (case run_pipeline e self1 text of
          Inl err \<Rightarrow> Inl err
        | Inr (ms, called) \<Rightarrow>
            Inr ((text, sorted_set ms), self1\<lparr>matches := sorted_set ms\<rparr>, called))"
    using a d by (simp add: complete_def complete_matches_def)
  assume "readline self1 \<noteq> None \<or> python_func_kw_matches_m \<notin> set (matchers self1)"
  then show "let out = (\<lambda>m. case m of
                           python_matches_m \<Rightarrow> python_matches e self1 text
                         | file_matches_m \<Rightarrow> file_matches e self1 text
                         | magic_matches_m \<Rightarrow> magic_matches e self1 text
                         | alias_matches_m \<Rightarrow> alias_matches e self1 text
                         | python_func_kw_matches_m \<Rightarrow>
                             projr (python_func_kw_matches e self1 text));
              called = (if merge_completions self1 then matchers self1
                        else takeWhile (\<lambda>m. out m = []) (matchers self1) @
                             take 1 (dropWhile (\<lambda>m. out m = []) (matchers self1)));
              ms = sorted_set (concat (map out called))
          in complete e self text_in line_buffer cursor_pos =
               Inr ((text, ms), self1\<lparr>matches := ms\<rparr>, called)"
    using c by (simp add: run_pipeline_runs Let_def projr_run_matcher)
next
  assume "readline self = Some (buf, pos) \<and> strip buf = ''''"
  then show "rlcomplete e self t 0 =
        (if dumb_terminal self then
           (case complete e self (Some t) (Some buf) (Some pos) of
              Inl err \<Rightarrow> Inl err
            | Inr (res, self2, called) \<Rightarrow> Inr (index_or_none (matches self2) 0, self2))
         else Inr (None, self\<lparr>full_lbuf := buf\<rparr>))"
    by (simp add: rlcomplete_def Let_def complete_full_lbuf)
qed

theorem blank_line_no_custom_completer_witness:
  "strip ''  '' = '''' \<and>
   completer_chain (with_registry [(Flat (\<lambda>buf. True), failing)] ''  '') = [failing] \<and>
   dispatch_custom_completer (with_registry [(Flat (\<lambda>buf. True), failing)] ''  '') '''' =
     (0, Inr None) \<and>
   called_of (complete scenario_env (with_registry [(Flat (\<lambda>buf. True), failing)] ''  '')
     (Some '''') (Some ''  '') (Some 2)) = Inr default_matchers \<and>
   map_sum id (\<lambda>((t, ms), s, c). (length ms, index_or_none ms 0))
     (complete scenario_env (with_registry [(Flat (\<lambda>buf. True), failing)] ''  '')
        (Some '''') (Some ''  '') (Some 2)) = Inr (42, Some ''%cd'') \<and>
   rlcomplete scenario_env (with_registry [(Flat (\<lambda>buf. True), failing)] ''  '') '''' 0 =
     Inr (None, with_registry [(Flat (\<lambda>buf. True), failing)] ''  '')"
proof -
  have s: "strip (full_lbuf (with_registry [(Flat (\<lambda>buf. True), failing)] ''  '')) = ''''"
    by (simp add: with_registry_simps str_simps)
  have b: "strip ''  '' = ''''"
    by (simp add: str_simps)
  have n: "map_sum id (\<lambda>((t, ms), s, c). (length ms, index_or_none ms 0))
     (complete scenario_env (with_registry [(Flat (\<lambda>buf. True), failing)] ''  '')
        (Some '''') (Some ''  '') (Some 2)) = Inr (42, Some ''%cd'')"
    by code_simp
  have f: "(with_registry [(Flat (\<lambda>buf. True), failing)] ''  '')\<lparr>full_lbuf := ''  ''\<rparr> =
      with_registry [(Flat (\<lambda>buf. True), failing)] ''  ''"
    by (simp add: with_registry_def on_line_def scenario_completer_def)
  note blank = blank_line_no_custom_completer
      [of "with_registry [(Flat (\<lambda>buf. True), failing)] ''  ''" "''''" scenario_env
        "with_registry [(Flat (\<lambda>buf. True), failing)] ''  ''" "Some ''''" "Some ''  ''" "Some 2"
        "''  ''" 2 "''''"]
  from blank [THEN conjunct1] s
  have d: "dispatch_custom_completer (with_registry [(Flat (\<lambda>buf. True), failing)] ''  '') '''' =
      (0, Inr None)"
    by simp
  have p: "resolve_request scenario_env (with_registry [(Flat (\<lambda>buf. True), failing)] ''  '')
      (Some '''') (Some ''  '') (Some 2) =
      Inr ('''', with_registry [(Flat (\<lambda>buf. True), failing)] ''  '') \<and>
    strip (full_lbuf (with_registry [(Flat (\<lambda>buf. True), failing)] ''  '')) = ''''"
    using resolve_request_blank s by simp
  from blank [THEN conjunct2, THEN conjunct1, THEN mp, OF p, THEN conjunct2, THEN conjunct2]
  have c: "called_of (complete scenario_env (with_registry [(Flat (\<lambda>buf. True), failing)] ''  '')
      (Some '''') (Some ''  '') (Some 2)) = Inr default_matchers"
    by (simp add: with_registry_simps called_of_def Let_def)
  from blank [THEN conjunct2, THEN conjunct2] b f
  have r: "rlcomplete scenario_env (with_registry [(Flat (\<lambda>buf. True), failing)] ''  '') '''' 0 =
      Inr (None, with_registry [(Flat (\<lambda>buf. True), failing)] ''  '')"
    by (simp add: with_registry_simps)
  show ?thesis
    using d c n r by (simp add: with_registry_simps str_simps completer_chain_def)
qed

text \<open>
  C10 as the specification states it fails through \<^verbatim>\<open>rlcomplete\<close>: on the line of two
  spaces of a terminal that is not dumb, state 0 returns \<^verbatim>\<open>None\<close> and the matches of the
  completer stay empty, where \<^verbatim>\<open>complete\<close> runs the five matchers and returns 42
  candidates. No matcher has run.
\<close>

theorem blank_line_tab_runs_no_matcher_counterexample:
  "strip ''  '' = '''' \<and> \<not> dumb_terminal (on_line ''  '') \<and>
   map_sum id (\<lambda>((t, ms), s, c). (length ms, c))
     (complete scenario_env (on_line ''  '') (Some '''') (Some ''  '') (Some 2)) =
     Inr (42, default_matchers) \<and>
   map_sum id (\<lambda>(r, s). (r, matches s)) (rlcomplete scenario_env (on_line ''  '') '''' 0) =
     Inr (None, [])"
  by code_simp

section \<open>The indexed protocol\<close>

text \<open>
  C5, as the code has it: on a dumb terminal, or when the terminal's line is not blank,
  \<^verbatim>\<open>rlcomplete\<close> with state 0 computes the matches of \<^verbatim>\<open>complete\<close> for the line and
  returns the first of them (or \<^verbatim>\<open>None\<close> when there is none); with the states up to
  \<open>k - 1\<close> it then returns the others in order, and with state \<open>k\<close> it returns \<^verbatim>\<open>None\<close>.
  On a blank line of a terminal that is not dumb, state 0 returns \<^verbatim>\<open>None\<close> and leaves the
  completer as it was but for the line it has read: no matches are computed.
\<close>

theorem rlcomplete_serves_batch_matches:
  assumes "readline self = Some (buf, pos)"
  shows "(dumb_terminal self \<or> strip buf \<noteq> '''' \<longrightarrow>
          complete e self (Some t) (Some buf) (Some pos) = Inr ((t', ms), self', called) \<longrightarrow>
            rlcomplete e self t 0 = Inr (if ms = [] then None else Some (ms ! 0), self') \<and>
            (\<forall>i. 0 < i \<and> i < int (length ms) \<longrightarrow>
               rlcomplete e self' t i = Inr (Some (ms ! nat i), self')) \<and>
            (ms \<noteq> [] \<longrightarrow> rlcomplete e self' t (int (length ms)) = Inr (None, self'))) \<and>
         (\<not> dumb_terminal self \<and> strip buf = '''' \<longrightarrow>
            rlcomplete e self t 0 = Inr (None, self\<lparr>full_lbuf := buf\<rparr>))"
proof (intro conjI impI)
  assume g: "dumb_terminal self \<or> strip buf \<noteq> ''''"
    and c: "complete e self (Some t) (Some buf) (Some pos) = Inr ((t', ms), self', called)"
  have m: "matches self' = ms"
    using c by (rule complete_state)
  have first: "rlcomplete e self t 0 = Inr (index_or_none ms 0, self')"
    using assms g c m by (auto simp: rlcomplete_def Let_def complete_full_lbuf)
  have later: "rlcomplete e self' t i = Inr (index_or_none ms i, self')" if "i \<noteq> 0" for i
    using that m by (simp add: rlcomplete_def)
  show "rlcomplete e self t 0 = Inr (if ms = [] then None else Some (ms ! 0), self')"
    using first by (auto simp: index_or_none_def)
  show "\<forall>i. 0 < i \<and> i < int (length ms) \<longrightarrow>
      rlcomplete e self' t i = Inr (Some (ms ! nat i), self')"
    using later by (auto simp: index_or_none_def)
  show "rlcomplete e self' t (int (length ms)) = Inr (None, self')" if "ms \<noteq> []"
    using later [of "int (length ms)"] that by (auto simp: index_or_none_def)
next
  assume "\<not> dumb_terminal self \<and> strip buf = ''''"
  then show "rlcomplete e self t 0 = Inr (None, self\<lparr>full_lbuf := buf\<rparr>)"
    using assms by (simp add: rlcomplete_def Let_def)
qed

lemma pipeline_ti:
  "run_pipeline scenario_env (on_line ''ti'') ''ti'' = Inr ([''%time'', ''%timeit''], default_matchers)"
  by code_simp

lemma sorted_set_ti: "sorted_set [''%time'', ''%timeit''] = [''%time'', ''%timeit'']"
  by (simp add: sorted_set_def)

lemma complete_ti:
  "complete scenario_env (on_line ''ti'') (Some ''ti'') (Some ''ti'') (Some 2) =
     Inr ((''ti'', [''%time'', ''%timeit'']),
          (on_line ''ti'')\<lparr>matches := [''%time'', ''%timeit'']\<rparr>, default_matchers)"
  using resolve_request_scenario [of "''ti''" "[]" "''ti''"]
  by (simp add: complete_def complete_matches_def dispatch_custom_completer_def
      completer_chain_def on_line_simps str_simps pipeline_ti sorted_set_ti
      on_line_registry [symmetric])

theorem rlcomplete_serves_batch_matches_witness:
  "result_of (complete scenario_env (on_line ''ti'') (Some ''ti'') (Some ''ti'') (Some 2)) =
     Inr (''ti'', [''%time'', ''%timeit'']) \<and>
   result_of (rlcomplete scenario_env (on_line ''ti'') ''ti'' 0) = Inr (Some ''%time'') \<and>
   result_of (rlcomplete scenario_env ((on_line ''ti'')\<lparr>matches := [''%time'', ''%timeit'']\<rparr>)
      ''ti'' 1) = Inr (Some ''%timeit'') \<and>
   result_of (rlcomplete scenario_env ((on_line ''ti'')\<lparr>matches := [''%time'', ''%timeit'']\<rparr>)
      ''ti'' 2) = Inr None \<and>
   strip ''  '' = '''' \<and>
   result_of (rlcomplete scenario_env (on_line ''  '') '''' 0) = Inr None"
proof -
  have r: "readline (on_line ''ti'') = Some (''ti'', 2)"
    by (simp add: on_line_simps)
  have d: "dumb_terminal (on_line ''ti'') \<or> strip ''ti'' \<noteq> ''''"
    by (simp add: str_simps)
  have served:
    "rlcomplete scenario_env (on_line ''ti'') ''ti'' 0 =
       Inr (if [''%time'', ''%timeit''] = [] then None else Some ([''%time'', ''%timeit''] ! 0),
            (on_line ''ti'')\<lparr>matches := [''%time'', ''%timeit'']\<rparr>) \<and>
     (\<forall>i. 0 < i \<and> i < int (length [''%time'', ''%timeit'']) \<longrightarrow>
        rlcomplete scenario_env ((on_line ''ti'')\<lparr>matches := [''%time'', ''%timeit'']\<rparr>) ''ti'' i =
          Inr (Some ([''%time'', ''%timeit''] ! nat i),
               (on_line ''ti'')\<lparr>matches := [''%time'', ''%timeit'']\<rparr>)) \<and>
     ([''%time'', ''%timeit''] \<noteq> [] \<longrightarrow>
        rlcomplete scenario_env ((on_line ''ti'')\<lparr>matches := [''%time'', ''%timeit'']\<rparr>) ''ti''
          (int (length [''%time'', ''%timeit''])) =
          Inr (None, (on_line ''ti'')\<lparr>matches := [''%time'', ''%timeit'']\<rparr>))"
    using rlcomplete_serves_batch_matches [OF r] d complete_ti by blast
  from served have "rlcomplete scenario_env (on_line ''ti'') ''ti'' 0 =
      Inr (Some ''%time'', (on_line ''ti'')\<lparr>matches := [''%time'', ''%timeit'']\<rparr>)"
    by simp
  moreover from served have "rlcomplete scenario_env
      ((on_line ''ti'')\<lparr>matches := [''%time'', ''%timeit'']\<rparr>) ''ti'' 1 =
      Inr (Some ''%timeit'', (on_line ''ti'')\<lparr>matches := [''%time'', ''%timeit'']\<rparr>)"
    by simp
  moreover from served have "rlcomplete scenario_env
      ((on_line ''ti'')\<lparr>matches := [''%time'', ''%timeit'']\<rparr>) ''ti'' 2 =
      Inr (None, (on_line ''ti'')\<lparr>matches := [''%time'', ''%timeit'']\<rparr>)"
    by simp
  moreover have b: "readline (on_line ''  '') = Some (''  '', 2)"
    by (simp add: on_line_simps)
  moreover have "strip ''  '' = ''''"
    by (simp add: str_simps)
  moreover have "rlcomplete scenario_env (on_line ''  '') '''' 0 =
      Inr (None, (on_line ''  '')\<lparr>full_lbuf := ''  ''\<rparr>)"
    using rlcomplete_serves_batch_matches [OF b, of scenario_env "''''"]
    by (simp add: str_simps on_line_simps)
  ultimately show ?thesis
    by (simp add: result_of_def complete_ti)
qed

text \<open>
  C5 as the specification states it fails on a blank line of a terminal that is not dumb:
  \<^verbatim>\<open>complete\<close> returns 42 candidates for the empty token, the first being \<^verbatim>\<open>%cd\<close>, and
  \<^verbatim>\<open>rlcomplete\<close> with state 0 returns \<^verbatim>\<open>None\<close> (it inserts a tab instead).
\<close>

theorem rlcomplete_blank_line_counterexample:
  "map_sum id (\<lambda>((t, ms), s, c). (length ms, index_or_none ms 0))
     (complete scenario_env (on_line '''') (Some '''') (Some '''') (Some 0)) =
     Inr (42, Some ''%cd'') \<and>
   result_of (rlcomplete scenario_env (on_line '''') '''' 0) = Inr None"
  by code_simp
section \<open>Attributes of an expression\<close>

lemma after_last_append_sep: "after_last c (xs @ c # ys) = after_last c ys"
  by (simp add: after_last_def takeWhile_tail)

lemma after_last_none:
  assumes "c \<notin> set s"
  shows "after_last c s = s"
proof -
  have "takeWhile (\<lambda>x. x \<noteq> c) (rev s) = rev s"
    using assms by (auto simp: takeWhile_eq_all_conv)
  then show ?thesis
    by (simp only: after_last_def rev_rev_ident)
qed

lemma before_last_decomp:
  assumes "c \<in> set t"
  shows "take (length t - length (after_last c t) - 1) t @ c # after_last c t = t"
proof -
  from assms obtain xs ys where t: "t = xs @ c # ys" and ys: "c \<notin> set ys"
    by (auto dest: split_list_last)
  have "after_last c t = ys"
    using ys by (simp add: t after_last_append_sep after_last_none)
  then show ?thesis
    by (simp add: t)
qed

lemma word_not_space: "is_word c \<Longrightarrow> \<not> isspace c"
  by (auto simp: is_word_def word_chars_def isspace_def whitespace_chars_def)

lemma dot_not_word: "\<not> is_word (CHR ''.'')"
  by (simp add: is_word_def word_chars_def)

lemma newline_not_word: "\<not> is_word (CHR 0x0A)"
  by (simp add: is_word_def word_chars_def)

lemma attr_re_match_iff:
  "attr_re_match text = Some (expr, attr) \<longleftrightarrow>
     (if text \<noteq> [] \<and> last text = CHR 0x0A then butlast text else text) = expr @ ''.'' @ attr \<and>
     expr \<noteq> [] \<and> list_all (\<lambda>c. \<not> isspace c) expr \<and> list_all is_word attr"
proof -
  define t where "t = (if text \<noteq> [] \<and> last text = CHR 0x0A then butlast text else text)"
  have m: "attr_re_match text =
      (if CHR ''.'' \<in> set t \<and>
          take (length t - length (after_last (CHR ''.'') t) - 1) t \<noteq> [] \<and>
          list_all (\<lambda>c. \<not> isspace c) (take (length t - length (after_last (CHR ''.'') t) - 1) t) \<and>
          list_all is_word (after_last (CHR ''.'') t)
       then Some (take (length t - length (after_last (CHR ''.'') t) - 1) t,
                  after_last (CHR ''.'') t)
       else None)"
    by (simp add: attr_re_match_def t_def Let_def)
  have "attr_re_match text = Some (expr, attr)"
    if "t = expr @ ''.'' @ attr" "expr \<noteq> []" "list_all (\<lambda>c. \<not> isspace c) expr"
      "list_all is_word attr"
  proof -
    have "CHR ''.'' \<notin> set attr"
      using that(4) dot_not_word by (auto simp: list_all_iff)
    then have "after_last (CHR ''.'') t = attr"
      using that(1) by (simp add: after_last_append_sep after_last_none)
    then show ?thesis
      using that by (simp add: m)
  qed
  moreover have "t = expr @ ''.'' @ attr \<and> expr \<noteq> [] \<and> list_all (\<lambda>c. \<not> isspace c) expr \<and>
      list_all is_word attr"
    if "attr_re_match text = Some (expr, attr)"
  proof -
    from that have d: "CHR ''.'' \<in> set t"
      and e: "expr = take (length t - length (after_last (CHR ''.'') t) - 1) t"
      and a: "attr = after_last (CHR ''.'') t"
      and r: "expr \<noteq> []" "list_all (\<lambda>c. \<not> isspace c) expr" "list_all is_word attr"
      by (auto simp: m split: if_splits)
    from before_last_decomp [OF d] e a have "t = expr @ ''.'' @ attr"
      by simp
    then show ?thesis
      using r by simp
  qed
  ultimately show ?thesis
    unfolding t_def by blast
qed

lemma split_dots_not_empty: "split_dots s piece \<noteq> []"
  by (induction s arbitrary: piece) simp_all

lemma split_dots_length: "2 \<le> length (split_dots s piece) \<longleftrightarrow> CHR ''.'' \<in> set s"
proof (induction s arbitrary: piece)
  case Nil
  show ?case by simp
next
  case (Cons c cs)
  have "1 \<le> length (split_dots cs [])"
    using split_dots_not_empty [of cs "[]"] by (cases "split_dots cs []") simp_all
  then show ?case
    using Cons by auto
qed

lemma last_split_dots:
  "CHR ''.'' \<notin> set piece \<Longrightarrow>
     last (split_dots s piece) = after_last (CHR ''.'') (piece @ s)"
proof (induction s arbitrary: piece)
  case Nil
  then show ?case by (simp add: after_last_none)
next
  case (Cons c cs)
  show ?case
  proof (cases "c = CHR ''.''")
    case True
    have "last (split_dots (c # cs) piece) = last (split_dots cs [])"
      using True by (simp add: split_dots_not_empty)
    also have "\<dots> = after_last (CHR ''.'') cs"
      using Cons.IH [of "[]"] by simp
    finally show ?thesis
      using True by (simp add: after_last_append_sep)
  next
    case False
    then show ?thesis
      using Cons.IH [of "piece @ [c]"] Cons.prems by simp
  qed
qed

lemma split_dots_chars:
  "list_all is_identifier (butlast (split_dots s piece)) \<Longrightarrow>
   list_all is_word (last (split_dots s piece)) \<Longrightarrow>
     \<forall>c \<in> set (piece @ s). is_word c \<or> c = CHR ''.''"
proof (induction s arbitrary: piece)
  case Nil
  then show ?case by (auto simp: list_all_iff)
next
  case (Cons c cs)
  show ?case
  proof (cases "c = CHR ''.''")
    case True
    from Cons.prems True have p: "is_identifier piece"
      and b: "list_all is_identifier (butlast (split_dots cs []))"
      and l: "list_all is_word (last (split_dots cs []))"
      by (simp_all add: split_dots_not_empty)
    from Cons.IH [OF b l] p True show ?thesis
      by (auto simp: is_identifier_def list_all_iff)
  next
    case False
    with Cons.prems Cons.IH [of "piece @ [c]"] show ?thesis
      by auto
  qed
qed

lemma split_dots_first:
  "2 \<le> length (split_dots s []) \<Longrightarrow> list_all is_identifier (butlast (split_dots s [])) \<Longrightarrow>
     s \<noteq> [] \<and> hd s \<noteq> CHR ''.''"
  by (cases s) (auto simp: split_dots_not_empty is_identifier_def)

lemma grammar_matches:
  assumes "spec_dotted_grammar text"
  shows "\<exists>expr attr. attr_re_match text = Some (expr, attr) \<and> expr @ ''.'' @ attr = text"
proof -
  from assms have n: "2 \<le> length (split_dots text [])"
    and b: "list_all is_identifier (butlast (split_dots text []))"
    and l: "list_all is_word (last (split_dots text []))"
    by (simp_all add: spec_dotted_grammar_def Let_def)
  have chars: "\<forall>c \<in> set text. is_word c \<or> c = CHR ''.''"
    using split_dots_chars [OF b l] by simp
  have dot: "CHR ''.'' \<in> set text"
    using n by (simp add: split_dots_length)
  have first: "text \<noteq> []" "hd text \<noteq> CHR ''.''"
    using split_dots_first [OF n b] by simp_all
  have nl: "\<not> (text \<noteq> [] \<and> last text = CHR 0x0A)"
  proof
    assume "text \<noteq> [] \<and> last text = CHR 0x0A"
    then have "CHR 0x0A \<in> set text"
      by (metis last_in_set)
    with chars show False
      using newline_not_word by auto
  qed
  define attr where "attr = after_last (CHR ''.'') text"
  define expr where "expr = take (length text - length attr - 1) text"
  have t: "expr @ ''.'' @ attr = text"
    using before_last_decomp [OF dot] by (simp add: expr_def attr_def)
  have "attr = last (split_dots text [])"
    by (simp add: attr_def last_split_dots)
  then have a: "list_all is_word attr"
    using l by simp
  have e: "expr \<noteq> []"
  proof
    assume "expr = []"
    with t have "text = CHR ''.'' # attr"
      by simp
    with first show False
      by simp
  qed
  have "set expr \<subseteq> set text"
    by (auto simp: expr_def dest: in_set_takeD)
  with chars have s: "list_all (\<lambda>c. \<not> isspace c) expr"
    using word_not_space by (auto simp: list_all_iff isspace_def whitespace_chars_def)
  have "(if text \<noteq> [] \<and> last text = CHR 0x0A then butlast text else text) =
      expr @ ''.'' @ attr"
    using nl t by auto
  then have "attr_re_match text = Some (expr, attr)"
    unfolding attr_re_match_iff using e s a by blast
  with t show ?thesis
    by blast
qed

text \<open>
  C6, as the code has it: \<^verbatim>\<open>attr_matches\<close> returns the empty list unless the token (a
  final newline apart) is an expression, a dot and a partial attribute, where the expression
  is any run of characters that are not whitespace and is not empty, and the partial
  attribute is a run of word characters; every token of the grammar
  \<^verbatim>\<open>identifier(.identifier)*.partial\<close> is of this form. When the expression evaluates in
  neither namespace the result is the empty list, and nothing is raised; so it is for
  \<^verbatim>\<open>notdefined.x\<close> with \<^verbatim>\<open>notdefined\<close> bound nowhere.
\<close>

theorem attr_matches_fails_soft:
  "(attr_re_match text = None \<longrightarrow> attr_matches e self text = []) \<and>
   (attr_re_match text = Some (expr, attr) \<longleftrightarrow>
      (if text \<noteq> [] \<and> last text = CHR 0x0A then butlast text else text) = expr @ ''.'' @ attr \<and>
      expr \<noteq> [] \<and> list_all (\<lambda>c. \<not> isspace c) expr \<and> list_all is_word attr) \<and>
   (spec_dotted_grammar text \<longrightarrow>
      (\<exists>expr attr. attr_re_match text = Some (expr, attr) \<and> expr @ ''.'' @ attr = text)) \<and>
   (attr_re_match text = Some (expr, attr) \<and> eval e expr (namespace self) = None \<and>
    eval e expr (global_namespace self) = None \<longrightarrow> attr_matches e self text = []) \<and>
   (eval e ''notdefined'' (namespace self) = None \<and>
    eval e ''notdefined'' (global_namespace self) = None \<longrightarrow>
      attr_matches e self ''notdefined.x'' = [])"
proof -
  have re: "attr_re_match ''notdefined.x'' = Some (''notdefined'', ''x'')"
    by code_simp
  have "attr_re_match text = None \<longrightarrow> attr_matches e self text = []"
    by (simp add: attr_matches_def)
  moreover have "attr_re_match text = Some (expr, attr) \<and> eval e expr (namespace self) = None \<and>
      eval e expr (global_namespace self) = None \<longrightarrow> attr_matches e self text = []"
    by (simp add: attr_matches_def)
  moreover have "eval e ''notdefined'' (namespace self) = None \<and>
      eval e ''notdefined'' (global_namespace self) = None \<longrightarrow>
        attr_matches e self ''notdefined.x'' = []"
    by (simp add: attr_matches_def re)
  ultimately show ?thesis
    using attr_re_match_iff [of "text" expr attr] grammar_matches [of "text"] by blast
qed

theorem attr_matches_fails_soft_witness:
  "attr_re_match ''a b.c'' = None \<and>
   attr_matches scenario_env (on_line ''a b.c'') ''a b.c'' = [] \<and>
   spec_dotted_grammar ''notdefined.x'' \<and>
   attr_re_match ''notdefined.x'' = Some (''notdefined'', ''x'') \<and>
   scenario_eval ''notdefined'' (namespace (on_line ''notdefined.x'')) = None \<and>
   attr_matches scenario_env (on_line ''notdefined.x'') ''notdefined.x'' = []"
proof -
  have a: "attr_re_match ''a b.c'' = None"
    by code_simp
  have g: "spec_dotted_grammar ''notdefined.x''"
    by code_simp
  have r: "attr_re_match ''notdefined.x'' = Some (''notdefined'', ''x'')"
    by code_simp
  have b: "scenario_eval ''notdefined'' (namespace (on_line ''notdefined.x'')) = None"
    by (simp add: scenario_eval_def on_line_simps)
  have c: "scenario_eval ''notdefined'' (global_namespace (on_line ''notdefined.x'')) = None"
    by (simp add: scenario_eval_def on_line_simps)
  show ?thesis
    using attr_matches_fails_soft [of "''a b.c''" scenario_env "on_line ''a b.c''"]
      attr_matches_fails_soft
        [of "''notdefined.x''" scenario_env "on_line ''notdefined.x''" "''notdefined''" "''x''"]
      a g r b c
    by (simp add: scenario_env_simps)
qed

text \<open>
  C6 as the specification states it fails: the token \<^verbatim>\<open>''.jo\<close> is not of the grammar
  \<^verbatim>\<open>identifier(.identifier)*.partial\<close>, and \<^verbatim>\<open>attr_matches\<close> returns the attribute
  \<^verbatim>\<open>join\<close> of the empty string for it.
\<close>

theorem attr_matches_outside_grammar_counterexample:
  "\<not> spec_dotted_grammar ([CHR 0x27, CHR 0x27] @ ''.jo'') \<and>
   attr_matches scenario_env (on_line ([CHR 0x27, CHR 0x27] @ ''.jo''))
     ([CHR 0x27, CHR 0x27] @ ''.jo'') = [[CHR 0x27, CHR 0x27] @ ''.join'']"
  by code_simp

section \<open>Keyword arguments of the open call\<close>








section \<open>Candidates and the token\<close>




























end
